theory Spec2Isabelle
  imports Main "HOL-Library.Sublist"
begin

text \<open>
  The request handlers of \<open>app.py\<close> as functions from the request, the session, the
  tables and the connection pool to the response and the tables and pool they leave
  behind: \<open>login\<close>, \<open>get_tasks\<close>, \<open>create_task\<close>, \<open>update_task\<close>, \<open>delete_task\<close> and
  \<open>get_stats\<close>, with the decorator \<open>login_required\<close> and \<open>get_db_connection\<close>. Each SQL
  statement is the list operation it denotes on the two tables. An exception is a value
  \<open>Inl e\<close>; a \<open>try\<close> block is the case distinction on it. Failures of the database server
  or the network in the middle of a request are not modelled.
\<close>

section \<open>Python values and the operators the handlers apply to them\<close>

text \<open>
  \<open>request.get_json()\<close> hands a handler the parsed body: \<open>None\<close> (a body \<open>null\<close>), a
  boolean, an integer, a string, a list or a dict. A dict is kept as its list of items and
  read through \<open>map_of\<close>; it is empty exactly when the list is. Non-integer numbers are
  left out.
\<close>

datatype pyval =
    PNone
  | PBool bool
  | PInt int
  | PStr string
  | PList "pyval list"
  | PDict "(string \<times> pyval) list"

datatype exn =
  TypeError | AttributeError | KeyError | ValueError | ProgrammingError | DatabaseError

text \<open>Truth value of a Python object, as \<open>not x\<close> and \<open>x if x else y\<close> test it.\<close>

fun truthy :: "pyval \<Rightarrow> bool" where
  "truthy PNone = False"
| "truthy (PBool b) = b"
| "truthy (PInt i) = (i \<noteq> 0)"
| "truthy (PStr s) = (s \<noteq> [])"
| "truthy (PList xs) = (xs \<noteq> [])"
| "truthy (PDict kvs) = (kvs \<noteq> [])"

text \<open>
  \<open>k in data\<close>: key membership on a dict, element membership on a list, substring test on
  a string, \<open>TypeError\<close> on anything else (\<open>None\<close>, a boolean, an integer).
\<close>

fun py_in :: "string \<Rightarrow> pyval \<Rightarrow> exn + bool" where
  "py_in k (PDict kvs) = Inr (map_of kvs k \<noteq> None)"
| "py_in k (PList xs) = Inr (List.member xs (PStr k))"
| "py_in k (PStr s) = Inr (sublist k s)"
| "py_in k PNone = Inl TypeError"
| "py_in k (PBool b) = Inl TypeError"
| "py_in k (PInt i) = Inl TypeError"

text \<open>\<open>data[k]\<close> with a string key: only a dict can be indexed by a string.\<close>

fun py_getitem :: "pyval \<Rightarrow> string \<Rightarrow> exn + pyval" where
  "py_getitem (PDict kvs) k = (case map_of kvs k of None \<Rightarrow> Inl KeyError | Some v \<Rightarrow> Inr v)"
| "py_getitem (PList xs) k = Inl TypeError"
| "py_getitem (PStr s) k = Inl TypeError"
| "py_getitem PNone k = Inl TypeError"
| "py_getitem (PBool b) k = Inl TypeError"
| "py_getitem (PInt i) k = Inl TypeError"

text \<open>\<open>data.get(k, d)\<close>: only a dict has the method.\<close>

fun py_get :: "pyval \<Rightarrow> string \<Rightarrow> pyval \<Rightarrow> exn + pyval" where
  "py_get (PDict kvs) k d = Inr (case map_of kvs k of None \<Rightarrow> d | Some v \<Rightarrow> v)"
| "py_get (PList xs) k d = Inl AttributeError"
| "py_get (PStr s) k d = Inl AttributeError"
| "py_get PNone k d = Inl AttributeError"
| "py_get (PBool b) k d = Inl AttributeError"
| "py_get (PInt i) k d = Inl AttributeError"

text \<open>Sequencing of steps that may raise: the first exception ends the sequence.\<close>

definition and_then :: "exn + 'a \<Rightarrow> ('a \<Rightarrow> exn + 'b) \<Rightarrow> exn + 'b" where
  "and_then m f = (case m of Inl e \<Rightarrow> Inl e | Inr x \<Rightarrow> f x)"

section \<open>The store\<close>

text \<open>
  A statement parameter as the connector sends it. \<open>cursor.execute\<close> converts each Python
  parameter first and raises \<open>ProgrammingError\<close> on a list or a dict.
\<close>

datatype sqlval = SNull | SInt int | SStr string

text \<open>
  A Python \<open>str\<close> whose characters are looked at one by one (the username and password
  of the login form) is the list of its Unicode code points; \<open>ustr\<close> gives the code points
  of an ASCII literal. The other strings are kept as their bytes: they are only compared,
  tested for emptiness and searched for an ASCII key, which reads the same on bytes and on
  code points.
\<close>

type_synonym pystr = "nat list"

definition ustr :: "string \<Rightarrow> pystr" where
  "ustr s = map of_char s"

fun to_mysql :: "pyval \<Rightarrow> exn + sqlval" where
  "to_mysql PNone = Inr SNull"
| "to_mysql (PBool b) = Inr (SInt (if b then 1 else 0))"
| "to_mysql (PInt i) = Inr (SInt i)"
| "to_mysql (PStr s) = Inr (SStr s)"
| "to_mysql (PList xs) = Inl ProgrammingError"
| "to_mysql (PDict kvs) = Inl ProgrammingError"

record user_row =
  u_id :: int
  u_username :: pystr
  u_password_hash :: string
  u_first_name :: string
  u_last_name :: string

text \<open>
  A row of \<open>tasks\<close>. The four text columns hold a string or NULL (\<open>None\<close>), \<open>due_date\<close> a
  date (a day number) or NULL, the two timestamps a point in time.
\<close>

record task_row =
  t_id :: int
  t_user_id :: int
  t_title :: "string option"
  t_description :: "string option"
  t_status :: "string option"
  t_priority :: "string option"
  t_due_date :: "int option"
  t_created_at :: int
  t_updated_at :: int

record database =
  users :: "user_row list"
  tasks :: "task_row list"
  auto_increment :: int

datatype column = Title | Description | Status | Priority

text \<open>
  Modelled from the spec: the table definitions (column types, NOT NULL and ENUM
  constraints, defaults) are not part of the source, which only names the columns in its
  statements. They are a parameter of the model: for each text column and each bound value,
  \<open>text_column\<close> gives the cell the column stores or the error the statement raises;
  \<open>date_column\<close> does the same for \<open>due_date\<close>; \<open>default_status\<close> is the status of a
  row inserted without one. Section 3 of the spec has \<open>id\<close> assigned by the store on
  creation and \<open>created_at\<close>, \<open>updated_at\<close> maintained by the store, \<open>updated_at\<close>
  advancing on every mutation; string comparison is exact.
\<close>

record schema =
  text_column :: "column \<Rightarrow> sqlval \<Rightarrow> exn + string option"
  date_column :: "sqlval \<Rightarrow> exn + int option"
  default_status :: "string option"

text \<open>
  \<open>INSERT INTO tasks (user_id, title, description, priority, due_date) VALUES (...)\<close>:
  returns \<open>lastrowid\<close> and the new table.
\<close>

definition execute_insert ::
  "schema \<Rightarrow> int \<Rightarrow> int \<Rightarrow> pyval \<Rightarrow> pyval \<Rightarrow> pyval \<Rightarrow> pyval \<Rightarrow> database \<Rightarrow> exn + (int \<times> database)" where
  "execute_insert sc now uid title description priority due d =
     and_then (to_mysql title) (\<lambda>p1.
     and_then (to_mysql description) (\<lambda>p2.
     and_then (to_mysql priority) (\<lambda>p3.
     and_then (to_mysql due) (\<lambda>p4.
     and_then (text_column sc Title p1) (\<lambda>c1.
     and_then (text_column sc Description p2) (\<lambda>c2.
     and_then (text_column sc Priority p3) (\<lambda>c3.
     and_then (date_column sc p4) (\<lambda>c4.
       Inr (auto_increment d,
            d\<lparr>tasks := tasks d @
                 [\<lparr>t_id = auto_increment d, t_user_id = uid, t_title = c1,
                   t_description = c2, t_status = default_status sc, t_priority = c3,
                   t_due_date = c4, t_created_at = now, t_updated_at = now\<rparr>],
               auto_increment := auto_increment d + 1\<rparr>)))))))))"

text \<open>
  One \<open>name = %s\<close> item of the SET clause the update handler builds, with its value.
\<close>

datatype assignment = SetText column pyval | SetDueDate pyval

fun convert_assignment :: "schema \<Rightarrow> assignment \<Rightarrow> exn + (task_row \<Rightarrow> task_row)" where
  "convert_assignment sc (SetText c v) =
     and_then (to_mysql v) (\<lambda>p.
     and_then (text_column sc c p) (\<lambda>cell.
       Inr (case c of
              Title \<Rightarrow> (\<lambda>r. r\<lparr>t_title := cell\<rparr>)
            | Description \<Rightarrow> (\<lambda>r. r\<lparr>t_description := cell\<rparr>)
            | Status \<Rightarrow> (\<lambda>r. r\<lparr>t_status := cell\<rparr>)
            | Priority \<Rightarrow> (\<lambda>r. r\<lparr>t_priority := cell\<rparr>))))"
| "convert_assignment sc (SetDueDate v) =
     and_then (to_mysql v) (\<lambda>p.
     and_then (date_column sc p) (\<lambda>cell.
       Inr (\<lambda>r. r\<lparr>t_due_date := cell\<rparr>)))"

fun convert_assignments :: "schema \<Rightarrow> assignment list \<Rightarrow> exn + (task_row \<Rightarrow> task_row)" where
  "convert_assignments sc [] = Inr (\<lambda>r. r)"
| "convert_assignments sc (a # as) =
     and_then (convert_assignment sc a) (\<lambda>f.
     and_then (convert_assignments sc as) (\<lambda>g. Inr (\<lambda>r. g (f r))))"

text \<open>
  \<open>UPDATE tasks SET ... WHERE id = %s\<close>: every row with that id takes the assignments;
  the statement names no \<open>user_id\<close>.
\<close>

definition execute_update ::
  "schema \<Rightarrow> int \<Rightarrow> assignment list \<Rightarrow> int \<Rightarrow> database \<Rightarrow> exn + database" where
  "execute_update sc now asg task_id d =
     and_then (convert_assignments sc asg) (\<lambda>f.
       Inr (d\<lparr>tasks := map (\<lambda>r. if t_id r = task_id then (f r)\<lparr>t_updated_at := now\<rparr> else r)
                           (tasks d)\<rparr>))"

text \<open>
  \<open>DELETE FROM tasks WHERE id = %s AND user_id = %s\<close>: returns \<open>rowcount\<close> and the new
  table.
\<close>

definition execute_delete :: "int \<Rightarrow> int \<Rightarrow> database \<Rightarrow> nat \<times> database" where
  "execute_delete task_id uid d =
     (length (filter (\<lambda>r. t_id r = task_id \<and> t_user_id r = uid) (tasks d)),
      d\<lparr>tasks := filter (\<lambda>r. \<not> (t_id r = task_id \<and> t_user_id r = uid)) (tasks d)\<rparr>)"

section \<open>The connection pool\<close>

text \<open>
  \<open>db_pool\<close> is \<open>None\<close> when its creation failed at start-up (\<open>created\<close> is false), and
  otherwise holds \<open>idle\<close> connections to hand out. \<open>get_db_connection\<close> returns \<open>None\<close>
  when there is no pool or the pool is exhausted (the \<open>PoolError\<close> is caught), and the pool
  with one connection fewer when it hands one out; \<open>conn_close\<close> is \<open>conn.close()\<close>, which
  gives the connection back.
\<close>

record pool =
  created :: bool
  idle :: nat

definition get_db_connection :: "pool \<Rightarrow> pool option" where
  "get_db_connection p =
     (if created p then (if 0 < idle p then Some (p\<lparr>idle := idle p - 1\<rparr>) else None)
      else None)"

definition conn_close :: "pool \<Rightarrow> pool" where
  "conn_close p = p\<lparr>idle := idle p + 1\<rparr>"

section \<open>Responses\<close>

text \<open>
  A row of the task list as the handler returns it. The loop over the fetched rows
  replaces each timestamp and each non-NULL \<open>due_date\<close> by its \<open>isoformat()\<close> string; the
  view keeps the date or time that string writes.
\<close>

record task_view =
  v_id :: int
  v_title :: "string option"
  v_description :: "string option"
  v_status :: "string option"
  v_priority :: "string option"
  v_due_date :: "int option"
  v_created_at :: int
  v_updated_at :: int
  v_username :: pystr
  v_first_name :: string
  v_last_name :: string

record stats =
  status_counts :: "(string option \<times> nat) list"
  priority_counts :: "(string option \<times> nat) list"
  overdue_count :: nat
  total_tasks :: nat

text \<open>
  The body of a response: \<open>{'error': msg}\<close>, \<open>{'error': str(e)}\<close> for a caught exception,
  the task list, \<open>{'id', 'message', 'title'}\<close> of a creation, \<open>{'message': msg}\<close>, the
  statistics, a redirect to a route, or a rendered template.
\<close>

datatype body =
    JError string
  | JException exn
  | JTasks "task_view list"
  | JCreated int pyval
  | JMessage string
  | JStats stats
  | Redirect string
  | Template string

text \<open>
  What a request leaves behind: the status code and body of the response, the messages
  flashed, the tables and the pool.
\<close>

record outcome =
  o_code :: nat
  o_body :: body
  o_flashes :: "(string \<times> string) list"
  o_db :: database
  o_pool :: pool

definition reply :: "nat \<Rightarrow> body \<Rightarrow> database \<Rightarrow> pool \<Rightarrow> outcome" where
  "reply c b d p = \<lparr>o_code = c, o_body = b, o_flashes = [], o_db = d, o_pool = p\<rparr>"

section \<open>Session and login\<close>

record session =
  s_user_id :: "int option"
  s_username :: "pystr option"
  s_first_name :: "string option"

definition login_required ::
  "(int \<Rightarrow> database \<Rightarrow> pool \<Rightarrow> outcome) \<Rightarrow> session \<Rightarrow> database \<Rightarrow> pool \<Rightarrow> outcome" where
  "login_required f s d p =
     (case s_user_id s of
        None \<Rightarrow> \<lparr>o_code = 302, o_body = Redirect ''login'',
                 o_flashes = [(''Please log in to access this page'', ''warning'')],
                 o_db = d, o_pool = p\<rparr>
      | Some uid \<Rightarrow> f uid d p)"

text \<open>
  \<open>str.strip()\<close>: the characters for which \<open>str.isspace()\<close> holds are taken off both
  ends. These are the code points U+0009 to U+000D, U+001C to U+0020, U+0085, U+00A0,
  U+1680, U+2000 to U+200A, U+2028, U+2029, U+202F, U+205F and U+3000.
\<close>

definition isspace :: "nat \<Rightarrow> bool" where
  "isspace c = List.member
     [0x09, 0x0A, 0x0B, 0x0C, 0x0D, 0x1C, 0x1D, 0x1E, 0x1F, 0x20, 0x85, 0xA0, 0x1680,
      0x2000, 0x2001, 0x2002, 0x2003, 0x2004, 0x2005, 0x2006, 0x2007, 0x2008, 0x2009,
      0x200A, 0x2028, 0x2029, 0x202F, 0x205F, 0x3000] c"

definition strip :: "pystr \<Rightarrow> pystr" where
  "strip s = rev (dropWhile isspace (rev (dropWhile isspace s)))"

datatype http_method = GET | POST

record login_outcome =
  l_code :: nat
  l_body :: body
  l_flashes :: "(string \<times> string) list"
  l_session :: session
  l_pool :: pool

definition login_page :: "string \<Rightarrow> session \<Rightarrow> pool \<Rightarrow> login_outcome" where
  "login_page msg s p =
     \<lparr>l_code = 200, l_body = Template ''login.html'', l_flashes = [(msg, ''error'')],
      l_session = s, l_pool = p\<rparr>"

text \<open>
  \<open>login\<close>. \<open>bcrypt.checkpw\<close> is a parameter: it answers whether the password matches the
  stored hash, or raises. The row is fetched and the connection closed before the check;
  a missing row and a failed check fall into the same \<open>else\<close> branch.
\<close>

definition login ::
  "(pystr \<Rightarrow> string \<Rightarrow> exn + bool) \<Rightarrow> http_method \<Rightarrow> (string \<Rightarrow> pystr option) \<Rightarrow>
     session \<Rightarrow> database \<Rightarrow> pool \<Rightarrow> login_outcome" where
  "login checkpw meth form s d p =
     (if meth = POST then
        (let username = strip (case form ''username'' of None \<Rightarrow> [] | Some u \<Rightarrow> u);
             password = (case form ''password'' of None \<Rightarrow> [] | Some w \<Rightarrow> w)
         in if username = [] \<or> password = []
            then login_page ''Please enter both username and password'' s p
            else (case get_db_connection p of
                    None \<Rightarrow> login_page ''Database connection error'' s p
                  | Some p1 \<Rightarrow>
                      (case find (\<lambda>u. u_username u = username) (users d) of
                         None \<Rightarrow> login_page ''Invalid username or password'' s (conn_close p1)
                       | Some user \<Rightarrow>
                           (case checkpw password (u_password_hash user) of
                              Inl e \<Rightarrow>
                                login_page ''An error occurred during login'' s (conn_close p1)
                            | Inr ok \<Rightarrow>
                                if ok
                                then \<lparr>l_code = 302, l_body = Redirect ''dashboard'',
                                      l_flashes =
                                        [(''Welcome back, '' @ u_first_name user @ ''!'',
                                          ''success'')],
                                      l_session =
                                        s\<lparr>s_user_id := Some (u_id user),
                                          s_username := Some (u_username user),
                                          s_first_name := Some (u_first_name user)\<rparr>,
                                      l_pool = conn_close p1\<rparr>
                                else login_page ''Invalid username or password'' s
                                       (conn_close p1)))))
      else \<lparr>l_code = 200, l_body = Template ''login.html'', l_flashes = [], l_session = s,
            l_pool = p\<rparr>)"

section \<open>The task handlers\<close>

text \<open>
  The SELECT of \<open>get_tasks\<close>: the caller's rows of \<open>tasks\<close>, each joined with the rows of
  \<open>users\<close> of the same id, most recently updated first (rows updated at the same time
  stay in table order; the store leaves their order open).
\<close>

definition task_view_of :: "task_row \<Rightarrow> user_row \<Rightarrow> task_view" where
  "task_view_of r u =
     \<lparr>v_id = t_id r, v_title = t_title r, v_description = t_description r,
      v_status = t_status r, v_priority = t_priority r, v_due_date = t_due_date r,
      v_created_at = t_created_at r, v_updated_at = t_updated_at r,
      v_username = u_username u, v_first_name = u_first_name u,
      v_last_name = u_last_name u\<rparr>"

definition select_tasks :: "database \<Rightarrow> int \<Rightarrow> task_view list" where
  "select_tasks d uid =
     sort_key (\<lambda>v. - v_updated_at v)
       (concat (map (\<lambda>r. map (task_view_of r) (filter (\<lambda>u. t_user_id r = u_id u) (users d)))
                    (filter (\<lambda>r. t_user_id r = uid) (tasks d))))"

definition get_tasks :: "session \<Rightarrow> database \<Rightarrow> pool \<Rightarrow> outcome" where
  "get_tasks =
     login_required (\<lambda>uid d p.
       case get_db_connection p of
         None \<Rightarrow> reply 500 (JError ''Database connection failed'') d p
       | Some p1 \<Rightarrow> reply 200 (JTasks (select_tasks d uid)) d (conn_close p1))"

text \<open>
  \<open>create_task\<close>. The title check stands before the \<open>try\<close>: on a body that is not a dict
  \<open>data.get\<close> raises there, and the application's 500 handler answers. Inside the \<open>try\<close>
  an exception is answered with 500 by the \<open>except\<close> clause, which does not close the
  connection.
\<close>

definition create_task :: "schema \<Rightarrow> int \<Rightarrow> pyval \<Rightarrow> session \<Rightarrow> database \<Rightarrow> pool \<Rightarrow> outcome" where
  "create_task sc now data =
     login_required (\<lambda>uid d p.
       if \<not> truthy data then reply 400 (JError ''Title is required'') d p
       else
         (case py_get data ''title'' PNone of
            Inl e \<Rightarrow> reply 500 (Template ''500.html'') d p
          | Inr t \<Rightarrow>
              if \<not> truthy t then reply 400 (JError ''Title is required'') d p
              else
                (case get_db_connection p of
                   None \<Rightarrow> reply 500 (JError ''Database connection failed'') d p
                 | Some p1 \<Rightarrow>
                     (case
                        and_then (py_getitem data ''title'') (\<lambda>title.
                        and_then (py_get data ''description'' (PStr [])) (\<lambda>description.
                        and_then (py_get data ''priority'' (PStr ''medium'')) (\<lambda>priority.
                        and_then (py_get data ''due_date'' PNone) (\<lambda>due.
                        and_then
                          (execute_insert sc now uid title description priority
                             (if truthy due then due else PNone) d)
                          (\<lambda>(task_id, d'). Inr (task_id, title, d'))))))
                      of
                        Inl e \<Rightarrow> reply 500 (JException e) d p1
                      | Inr (task_id, title, d') \<Rightarrow>
                          reply 201 (JCreated task_id title) d' (conn_close p1)))))"

text \<open>
  The SET clause of \<open>update_task\<close>: one test \<open>k in data\<close> and one read \<open>data[k]\<close> for each
  of the five keys, in the order of the source; a \<open>due_date\<close> that is not true in Python is
  replaced by \<open>None\<close>.
\<close>

definition update_field ::
  "pyval \<Rightarrow> string \<Rightarrow> (pyval \<Rightarrow> assignment) \<Rightarrow> assignment list \<Rightarrow> exn + assignment list" where
  "update_field data k mk update_fields =
     and_then (py_in k data) (\<lambda>present.
       if present then and_then (py_getitem data k) (\<lambda>v. Inr (update_fields @ [mk v]))
       else Inr update_fields)"

definition build_update :: "pyval \<Rightarrow> exn + assignment list" where
  "build_update data =
     and_then (update_field data ''title'' (SetText Title) []) (\<lambda>f1.
     and_then (update_field data ''description'' (SetText Description) f1) (\<lambda>f2.
     and_then (update_field data ''status'' (SetText Status) f2) (\<lambda>f3.
     and_then (update_field data ''priority'' (SetText Priority) f3) (\<lambda>f4.
       update_field data ''due_date'' (\<lambda>v. SetDueDate (if truthy v then v else PNone)) f4))))"

definition owned :: "database \<Rightarrow> int \<Rightarrow> int \<Rightarrow> bool" where
  "owned d task_id uid = (filter (\<lambda>r. t_id r = task_id \<and> t_user_id r = uid) (tasks d) \<noteq> [])"

definition update_task ::
  "schema \<Rightarrow> int \<Rightarrow> int \<Rightarrow> pyval \<Rightarrow> session \<Rightarrow> database \<Rightarrow> pool \<Rightarrow> outcome" where
  "update_task sc now task_id data =
     login_required (\<lambda>uid d p.
       case get_db_connection p of
         None \<Rightarrow> reply 500 (JError ''Database connection failed'') d p
       | Some p1 \<Rightarrow>
           if \<not> owned d task_id uid
           then reply 404 (JError ''Task not found'') d (conn_close p1)
           else
             (case build_update data of
                Inl e \<Rightarrow> reply 500 (JException e) d p1
              | Inr update_fields \<Rightarrow>
                  if update_fields = []
                  then reply 200 (JMessage ''Task updated successfully'') d (conn_close p1)
                  else
                    (case execute_update sc now update_fields task_id d of
                       Inl e \<Rightarrow> reply 500 (JException e) d p1
                     | Inr d' \<Rightarrow>
                         reply 200 (JMessage ''Task updated successfully'') d'
                           (conn_close p1))))"

definition delete_task :: "int \<Rightarrow> session \<Rightarrow> database \<Rightarrow> pool \<Rightarrow> outcome" where
  "delete_task task_id =
     login_required (\<lambda>uid d p.
       case get_db_connection p of
         None \<Rightarrow> reply 500 (JError ''Database connection failed'') d p
       | Some p1 \<Rightarrow>
           (case execute_delete task_id uid d of
              (rowcount, d') \<Rightarrow>
                if rowcount = 0
                then reply 404 (JError ''Task not found'') d' (conn_close p1)
                else reply 200 (JMessage ''Task deleted successfully'') d' (conn_close p1)))"

text \<open>
  The three SELECTs of \<open>get_stats\<close>. \<open>GROUP BY\<close> yields one row per distinct value (NULL
  is a group of its own), which the dict comprehension keys by that value. A comparison
  with NULL is NULL, and \<open>WHERE\<close> keeps the rows whose condition is true.
\<close>

definition group_count :: "'a list \<Rightarrow> ('a \<times> nat) list" where
  "group_count xs = map (\<lambda>k. (k, count_list xs k)) (remdups xs)"

definition sql_lt :: "int option \<Rightarrow> int \<Rightarrow> bool option" where
  "sql_lt a b = (case a of None \<Rightarrow> None | Some x \<Rightarrow> Some (x < b))"

definition sql_ne :: "string option \<Rightarrow> string \<Rightarrow> bool option" where
  "sql_ne a b = (case a of None \<Rightarrow> None | Some x \<Rightarrow> Some (x \<noteq> b))"

definition overdue :: "int \<Rightarrow> int \<Rightarrow> task_row \<Rightarrow> bool" where
  "overdue uid today r =
     (t_user_id r = uid \<and> sql_lt (t_due_date r) today = Some True
      \<and> sql_ne (t_status r) ''completed'' = Some True)"

text \<open>
  \<open>jsonify(stats)\<close> sorts the keys of each dict it writes. The keys of \<open>status_counts\<close>
  and \<open>priority_counts\<close> are column values, and \<open>None\<close> cannot be compared with a string:
  a dict that holds the key \<open>None\<close> beside a string key raises \<open>TypeError\<close>. (A dict whose
  only key is \<open>None\<close> is written, under the key \<open>null\<close>.)
\<close>

definition mixed_keys :: "('a option \<times> nat) list \<Rightarrow> bool" where
  "mixed_keys kvs = (list_ex (\<lambda>kv. fst kv = None) kvs \<and> list_ex (\<lambda>kv. fst kv \<noteq> None) kvs)"

definition jsonify_stats :: "stats \<Rightarrow> exn + body" where
  "jsonify_stats st =
     (if mixed_keys (status_counts st) \<or> mixed_keys (priority_counts st)
      then Inl TypeError else Inr (JStats st))"

text \<open>
  \<open>get_stats\<close>. The connection is closed before \<open>jsonify\<close> is called, inside the \<open>try\<close>.
\<close>

definition get_stats :: "int \<Rightarrow> session \<Rightarrow> database \<Rightarrow> pool \<Rightarrow> outcome" where
  "get_stats today =
     login_required (\<lambda>uid d p.
       case get_db_connection p of
         None \<Rightarrow> reply 500 (JError ''Database connection failed'') d p
       | Some p1 \<Rightarrow>
           (let mine = filter (\<lambda>r. t_user_id r = uid) (tasks d);
                sc = group_count (map t_status mine);
                pc = group_count (map t_priority mine);
                oc = length (filter (overdue uid today) (tasks d))
            in case jsonify_stats
                      \<lparr>status_counts = sc, priority_counts = pc, overdue_count = oc,
                       total_tasks = sum_list (map snd sc)\<rparr>
               of Inl e \<Rightarrow> reply 500 (JException e) d (conn_close p1)
                | Inr b \<Rightarrow> reply 200 b d (conn_close p1)))"

section \<open>Reading a row by column\<close>

text \<open>
  The key under which a request names a text column, the cell of a row in that column,
  the column an item of a SET clause writes (\<open>None\<close> for \<open>due_date\<close>), and the item that
  a key of a dict body contributes to the SET clause.
\<close>

fun column_key :: "column \<Rightarrow> string" where
  "column_key Title = ''title''"
| "column_key Description = ''description''"
| "column_key Status = ''status''"
| "column_key Priority = ''priority''"

fun cell_of :: "column \<Rightarrow> task_row \<Rightarrow> string option" where
  "cell_of Title r = t_title r"
| "cell_of Description r = t_description r"
| "cell_of Status r = t_status r"
| "cell_of Priority r = t_priority r"

fun target :: "assignment \<Rightarrow> column option" where
  "target (SetText c v) = Some c"
| "target (SetDueDate v) = None"

definition set_item ::
  "(string \<times> pyval) list \<Rightarrow> string \<Rightarrow> (pyval \<Rightarrow> assignment) \<Rightarrow> assignment list" where
  "set_item kvs k mk = (case map_of kvs k of None \<Rightarrow> [] | Some v \<Rightarrow> [mk v])"

text \<open>
  Overdue as the spec words it, to be compared with the condition of the query: the task
  is the user's, its \<open>due_date\<close> is strictly before the current date, and its status is
  not \<open>completed\<close>.
\<close>

definition spec_overdue :: "int \<Rightarrow> int \<Rightarrow> task_row \<Rightarrow> bool" where
  "spec_overdue uid today r =
     (t_user_id r = uid
      \<and> (case t_due_date r of None \<Rightarrow> False | Some due \<Rightarrow> due < today)
      \<and> t_status r \<noteq> Some ''completed'')"

section \<open>A concrete store\<close>

text \<open>
  A schema, two users and three tasks on which the handlers are evaluated. In this schema
  \<open>title\<close> is NOT NULL and the other columns take NULL; a text column stores a string as
  it is and refuses an integer; \<open>due_date\<close> reads the integer \<open>YYYYMMDD\<close> as that date, the
  number standing for the day (dates written as strings are left out of the example).
\<close>

definition example_schema :: schema where
  "example_schema =
     \<lparr>text_column =
        (\<lambda>c v. case v of
                 SNull \<Rightarrow> (if c = Title then Inl DatabaseError else Inr None)
               | SInt i \<Rightarrow> Inl DatabaseError
               | SStr x \<Rightarrow> Inr (Some x)),
      date_column =
        (\<lambda>v. case v of
               SNull \<Rightarrow> Inr None
             | SInt i \<Rightarrow> Inr (Some i)
             | SStr x \<Rightarrow> Inl DatabaseError),
      default_status = Some ''pending''\<rparr>"

definition alice :: user_row where
  "alice = \<lparr>u_id = 1, u_username = ustr ''alice'', u_password_hash = ''hash-of-wonderland'',
            u_first_name = ''Alice'', u_last_name = ''Liddell''\<rparr>"

definition bob :: user_row where
  "bob = \<lparr>u_id = 2, u_username = ustr ''bob'', u_password_hash = ''hash-of-builder'',
          u_first_name = ''Bob'', u_last_name = ''Mason''\<rparr>"

definition milk :: task_row where
  "milk = \<lparr>t_id = 1, t_user_id = 1, t_title = Some ''Buy milk'', t_description = Some [],
           t_status = Some ''pending'', t_priority = Some ''medium'',
           t_due_date = Some 20240101, t_created_at = 100, t_updated_at = 100\<rparr>"

definition rent :: task_row where
  "rent = \<lparr>t_id = 2, t_user_id = 2, t_title = Some ''Pay rent'',
           t_description = Some ''monthly'', t_status = Some ''pending'',
           t_priority = Some ''high'', t_due_date = None, t_created_at = 110,
           t_updated_at = 120\<rparr>"

definition taxes :: task_row where
  "taxes = \<lparr>t_id = 3, t_user_id = 1, t_title = Some ''File taxes'',
            t_description = Some ''forms'', t_status = Some ''completed'',
            t_priority = Some ''high'', t_due_date = Some 20230415, t_created_at = 130,
            t_updated_at = 140\<rparr>"

definition example_db :: database where
  "example_db = \<lparr>users = [alice, bob], tasks = [milk, rent, taxes], auto_increment = 4\<rparr>"

definition alice_session :: session where
  "alice_session =
     \<lparr>s_user_id = Some 1, s_username = Some (ustr ''alice''), s_first_name = Some ''Alice''\<rparr>"

definition bob_session :: session where
  "bob_session = \<lparr>s_user_id = Some 2, s_username = Some (ustr ''bob''), s_first_name = Some ''Bob''\<rparr>"

definition full_pool :: pool where
  "full_pool = \<lparr>created = True, idle = 5\<rparr>"

text \<open>
  The store with the tasks \<open>milk\<close> and \<open>rent\<close> only: each user has one task.
\<close>

definition small_db :: database where
  "small_db = \<lparr>users = [alice, bob], tasks = [milk, rent], auto_increment = 3\<rparr>"

text \<open>
  Two password checks for the example, in which the hash of a password is \<open>hash-of-\<close>
  before it. The first always answers. The second raises \<open>ValueError\<close> on a password of
  more than 72 characters, as \<open>bcrypt.checkpw\<close> does from version 5.0 of the library on a
  password of more than 72 bytes (and, in every version, on a stored hash it cannot
  read).
\<close>

definition example_checkpw :: "pystr \<Rightarrow> string \<Rightarrow> exn + bool" where
  "example_checkpw password hashed = Inr (ustr hashed = ustr ''hash-of-'' @ password)"

definition strict_checkpw :: "pystr \<Rightarrow> string \<Rightarrow> exn + bool" where
  "strict_checkpw password hashed =
     (if 72 < length password then Inl ValueError else example_checkpw password hashed)"

text \<open>A password of 73 characters.\<close>

definition long_password :: pystr where
  "long_password =
     ustr ''aaaaaaaaaaaaaaaaaaaaaaaaaaaaaaaaaaaaaaaaaaaaaaaaaaaaaaaaaaaaaaaaaaaaaaaaa''"

section \<open>Auxiliary facts\<close>

lemmas example_defs = example_schema_def example_db_def alice_def bob_def milk_def rent_def
  taxes_def alice_session_def bob_session_def full_pool_def

lemmas handler_defs = login_required_def reply_def get_db_connection_def conn_close_def
  and_then_def

lemmas update_defs = update_task_def owned_def build_update_def update_field_def
  execute_update_def

lemma build_update_None: "build_update PNone = Inl TypeError"
  by (simp add: build_update_def update_field_def and_then_def)

lemma pool_restored: "get_db_connection p = Some p1 \<Longrightarrow> conn_close p1 = p"
  by (auto simp add: get_db_connection_def conn_close_def split: if_splits)

lemma and_then_Inr: "and_then m f = Inr y \<longleftrightarrow> (\<exists>x. m = Inr x \<and> f x = Inr y)"
  by (cases m) (simp_all add: and_then_def)

lemma tasks_filter_all:
  "(\<And>r. r \<in> set (tasks d) \<Longrightarrow> P r) \<Longrightarrow> d\<lparr>tasks := filter P (tasks d)\<rparr> = d"
  by (simp add: filter_id_conv)

lemma select_tasks_set:
  "set (select_tasks d uid) =
     {task_view_of r u | r u. r \<in> set (tasks d) \<and> t_user_id r = uid \<and> u \<in> set (users d)
                              \<and> t_user_id r = u_id u}"
  by (auto simp add: select_tasks_def)

text \<open>With \<open>id\<close> a key of \<open>tasks\<close>, a task of one user is not matched under another.\<close>

lemma not_owned_other:
  assumes "distinct (map t_id (tasks d))" and "r \<in> set (tasks d)" and "t_user_id r \<noteq> b"
  shows "\<not> (\<exists>r' \<in> set (tasks d). t_id r' = t_id r \<and> t_user_id r' = b)"
proof
  assume "\<exists>r' \<in> set (tasks d). t_id r' = t_id r \<and> t_user_id r' = b"
  then obtain r' where r': "r' \<in> set (tasks d)" "t_id r' = t_id r" "t_user_id r' = b"
    by blast
  from assms(1) have "inj_on t_id (set (tasks d))"
    by (simp add: distinct_map)
  with r' assms(2) have "r' = r"
    by (auto dest: inj_onD)
  with r'(3) assms(3) show False
    by simp
qed

text \<open>What \<open>delete_task\<close> answers once it holds a connection.\<close>

lemma delete_task_outcome:
  assumes "s_user_id s = Some uid" and "get_db_connection p = Some p1"
  shows "delete_task task_id s d p =
      (if \<exists>r \<in> set (tasks d). t_id r = task_id \<and> t_user_id r = uid
       then reply 200 (JMessage ''Task deleted successfully'')
              (d\<lparr>tasks := filter (\<lambda>r. \<not> (t_id r = task_id \<and> t_user_id r = uid)) (tasks d)\<rparr>)
              (conn_close p1)
       else reply 404 (JError ''Task not found'') d (conn_close p1))"
proof -
  let ?m = "\<exists>r \<in> set (tasks d). t_id r = task_id \<and> t_user_id r = uid"
  have len: "filter (\<lambda>r. t_id r = task_id \<and> t_user_id r = uid) (tasks d) = [] \<longleftrightarrow> \<not> ?m"
    by (auto simp add: filter_empty_conv)
  have same: "d\<lparr>tasks := filter (\<lambda>r. \<not> (t_id r = task_id \<and> t_user_id r = uid)) (tasks d)\<rparr> = d"
    if "\<not> ?m"
    using that by (intro tasks_filter_all) auto
  show ?thesis
  proof (cases ?m)
    case True
    with assms len show ?thesis
      by (simp add: delete_task_def login_required_def execute_delete_def)
  next
    case False
    with assms len same show ?thesis
      by (auto simp add: delete_task_def login_required_def execute_delete_def)
  qed
qed

text \<open>The counts of the groups add up to the number of rows grouped.\<close>

lemma group_count_total: "sum_list (map snd (group_count xs)) = length xs"
proof -
  have "sum_list (map snd (group_count xs)) = sum_list (map (count_list xs) (remdups xs))"
    by (simp add: group_count_def comp_def)
  also have "\<dots> = sum (count_list xs) (set xs)"
    using sum_list_distinct_conv_sum_set [of "remdups xs" "count_list xs"] by simp
  also have "\<dots> = length xs"
    by (rule sum_count_set) simp_all
  finally show ?thesis .
qed

lemma length_concat_singletons:
  "(\<And>r. r \<in> set rs \<Longrightarrow> length (g r) = 1) \<Longrightarrow> length (concat (map g rs)) = length rs"
  by (induction rs) simp_all

lemma length_select_tasks:
  assumes "length (filter (\<lambda>u. u_id u = uid) (users d)) = 1"
  shows "length (select_tasks d uid) = length (filter (\<lambda>r. t_user_id r = uid) (tasks d))"
proof -
  have eq: "(\<lambda>u. uid = u_id u) = (\<lambda>u. u_id u = uid)"
    by auto
  show ?thesis
    unfolding select_tasks_def length_sort
    by (rule length_concat_singletons) (simp add: assms eq)
qed

subsection \<open>The answer of the statistics\<close>

text \<open>
  The keys of a dict built by grouping cannot be sorted exactly when the grouped column
  holds NULL in one row and a value in another.
\<close>

lemma mixed_keys_group_count:
  "mixed_keys (group_count xs) \<longleftrightarrow> None \<in> set xs \<and> (\<exists>k. Some k \<in> set xs)"
  by (auto simp add: mixed_keys_def group_count_def list_ex_iff)

lemma mixed_keys_group_count_map:
  "mixed_keys (group_count (map f xs)) \<longleftrightarrow>
     (\<exists>x \<in> set xs. f x = None) \<and> (\<exists>x \<in> set xs. f x \<noteq> None)"
proof -
  have "None \<in> set (map f xs) \<longleftrightarrow> (\<exists>x \<in> set xs. f x = None)"
    by force
  moreover have "(\<exists>k. Some k \<in> set (map f xs)) \<longleftrightarrow> (\<exists>x \<in> set xs. f x \<noteq> None)"
  proof
    assume "\<exists>k. Some k \<in> set (map f xs)"
    then obtain k x where "x \<in> set xs" "f x = Some k"
      by (auto simp add: image_iff) metis
    then show "\<exists>x \<in> set xs. f x \<noteq> None"
      by auto
  next
    assume "\<exists>x \<in> set xs. f x \<noteq> None"
    then obtain x k where "x \<in> set xs" "f x = Some k"
      by auto
    then have "Some k \<in> set (map f xs)"
      by (simp add: image_iff) metis
    then show "\<exists>k. Some k \<in> set (map f xs)" ..
  qed
  ultimately show ?thesis
    by (simp only: mixed_keys_group_count)
qed

lemma get_stats_outcome:
  assumes "s_user_id s = Some uid" and "get_db_connection p = Some p1"
  shows "get_stats today s d p =
     (if mixed_keys (group_count (map t_status (filter (\<lambda>r. t_user_id r = uid) (tasks d))))
         \<or> mixed_keys (group_count (map t_priority (filter (\<lambda>r. t_user_id r = uid) (tasks d))))
      then reply 500 (JException TypeError) d (conn_close p1)
      else reply 200
             (JStats \<lparr>status_counts =
                        group_count (map t_status (filter (\<lambda>r. t_user_id r = uid) (tasks d))),
                      priority_counts =
                        group_count (map t_priority (filter (\<lambda>r. t_user_id r = uid) (tasks d))),
                      overdue_count = length (filter (overdue uid today) (tasks d)),
                      total_tasks =
                        sum_list (map snd (group_count
                          (map t_status (filter (\<lambda>r. t_user_id r = uid) (tasks d)))))\<rparr>)
             d (conn_close p1))"
  using assms
  by (simp add: get_stats_def login_required_def jsonify_stats_def Let_def)

lemma get_stats_JStats:
  assumes "o_body (get_stats today s d p) = JStats st" and "s_user_id s = Some uid"
  shows "status_counts st = group_count (map t_status (filter (\<lambda>r. t_user_id r = uid) (tasks d)))"
    and "overdue_count st = length (filter (overdue uid today) (tasks d))"
    and "total_tasks st = sum_list (map snd (status_counts st))"
    and "o_code (get_stats today s d p) = 200"
proof -
  from assms obtain p1 where p1: "get_db_connection p = Some p1"
    by (cases "get_db_connection p")
       (auto simp add: get_stats_def login_required_def reply_def)
  note out = get_stats_outcome [OF assms(2) p1, of today d]
  from assms(1) show "status_counts st = group_count (map t_status (filter (\<lambda>r. t_user_id r = uid) (tasks d)))"
    and "overdue_count st = length (filter (overdue uid today) (tasks d))"
    and "total_tasks st = sum_list (map snd (status_counts st))"
    and "o_code (get_stats today s d p) = 200"
    unfolding out by (auto simp add: reply_def split: if_splits)
qed

subsection \<open>The SET clause of a dict body\<close>

lemma update_field_dict:
  "update_field (PDict kvs) k mk acc = Inr (acc @ set_item kvs k mk)"
  by (simp add: update_field_def and_then_def set_item_def split: option.splits)

lemma build_update_dict:
  "build_update (PDict kvs) =
     Inr (set_item kvs ''title'' (SetText Title) @ set_item kvs ''description'' (SetText Description)
          @ set_item kvs ''status'' (SetText Status) @ set_item kvs ''priority'' (SetText Priority)
          @ set_item kvs ''due_date'' (\<lambda>v. SetDueDate (if truthy v then v else PNone)))"
  by (simp add: build_update_def update_field_dict and_then_def)

lemma target_set_item_text:
  "map target (set_item kvs k (SetText c)) = (case map_of kvs k of None \<Rightarrow> [] | Some v \<Rightarrow> [Some c])"
  by (simp add: set_item_def split: option.splits)

lemma target_set_item_due:
  "map target (set_item kvs k (\<lambda>v. SetDueDate (g v)))
     = (case map_of kvs k of None \<Rightarrow> [] | Some v \<Rightarrow> [None])"
  by (simp add: set_item_def split: option.splits)

lemma set_set_item: "set (set_item kvs k mk) = {a. \<exists>v. map_of kvs k = Some v \<and> a = mk v}"
  by (cases "map_of kvs k") (simp_all add: set_item_def)

lemma build_update_dict_props:
  assumes "build_update (PDict kvs) = Inr asg"
  shows "distinct (map target asg)"
    and "SetText c v \<in> set asg \<longleftrightarrow> map_of kvs (column_key c) = Some v"
    and "(\<exists>w. SetDueDate w \<in> set asg) \<longleftrightarrow> map_of kvs ''due_date'' \<noteq> None"
    and "map_of kvs ''due_date'' = Some v \<Longrightarrow> SetDueDate (if truthy v then v else PNone) \<in> set asg"
    and "asg = [] \<longleftrightarrow> (\<forall>c. map_of kvs (column_key c) = None) \<and> map_of kvs ''due_date'' = None"
proof -
  have asg: "asg = set_item kvs ''title'' (SetText Title) @ set_item kvs ''description'' (SetText Description)
          @ set_item kvs ''status'' (SetText Status) @ set_item kvs ''priority'' (SetText Priority)
          @ set_item kvs ''due_date'' (\<lambda>v. SetDueDate (if truthy v then v else PNone))"
    using assms by (simp add: build_update_dict)
  show "distinct (map target asg)"
    unfolding asg by (simp add: target_set_item_text target_set_item_due split: option.splits)
  show "SetText c v \<in> set asg \<longleftrightarrow> map_of kvs (column_key c) = Some v"
    unfolding asg by (cases c) (auto simp add: set_set_item)
  show "(\<exists>w. SetDueDate w \<in> set asg) \<longleftrightarrow> map_of kvs ''due_date'' \<noteq> None"
    unfolding asg by (auto simp add: set_set_item)
  show "map_of kvs ''due_date'' = Some v \<Longrightarrow> SetDueDate (if truthy v then v else PNone) \<in> set asg"
    unfolding asg by (simp add: set_set_item)
  show "asg = [] \<longleftrightarrow> (\<forall>c. map_of kvs (column_key c) = None) \<and> map_of kvs ''due_date'' = None"
  proof
    assume "asg = []"
    then have a: "map_of kvs ''title'' = None" "map_of kvs ''description'' = None"
      "map_of kvs ''status'' = None" "map_of kvs ''priority'' = None" "map_of kvs ''due_date'' = None"
      unfolding asg by (simp_all add: set_item_def split: option.splits)
    have "map_of kvs (column_key c) = None" for c
      using a by (cases c) simp_all
    with a show "(\<forall>c. map_of kvs (column_key c) = None) \<and> map_of kvs ''due_date'' = None"
      by simp
  next
    assume h: "(\<forall>c. map_of kvs (column_key c) = None) \<and> map_of kvs ''due_date'' = None"
    then have "map_of kvs (column_key Title) = None" "map_of kvs (column_key Description) = None"
      "map_of kvs (column_key Status) = None" "map_of kvs (column_key Priority) = None"
      by blast+
    with h show "asg = []"
      unfolding asg by (simp add: set_item_def)
  qed
qed

text \<open>What a converted SET clause does to a row.\<close>

lemma convert_assignment_frame:
  assumes "convert_assignment sc a = Inr f"
  shows "t_id (f r) = t_id r" and "t_user_id (f r) = t_user_id r"
    and "t_created_at (f r) = t_created_at r" and "t_updated_at (f r) = t_updated_at r"
    and "target a \<noteq> Some c \<Longrightarrow> cell_of c (f r) = cell_of c r"
    and "target a \<noteq> None \<Longrightarrow> t_due_date (f r) = t_due_date r"
  using assms
  by (cases a; cases c; auto simp add: and_then_def split: sum.splits column.splits)+

lemma convert_assignments_frame:
  assumes "convert_assignments sc asg = Inr f"
  shows "t_id (f r) = t_id r \<and> t_user_id (f r) = t_user_id r
       \<and> t_created_at (f r) = t_created_at r \<and> t_updated_at (f r) = t_updated_at r
       \<and> (Some c \<notin> set (map target asg) \<longrightarrow> cell_of c (f r) = cell_of c r)
       \<and> (None \<notin> set (map target asg) \<longrightarrow> t_due_date (f r) = t_due_date r)"
  using assms
proof (induction asg arbitrary: f r)
  case Nil
  then show ?case by auto
next
  case (Cons a as)
  from Cons.prems obtain fa g where fa: "convert_assignment sc a = Inr fa"
    and g: "convert_assignments sc as = Inr g" and f: "f = (\<lambda>r. g (fa r))"
    by (auto simp add: and_then_def split: sum.splits)
  note ih = Cons.IH [OF g, where r = "fa r"]
  note fr = convert_assignment_frame [OF fa, where r = r]
  have basic: "t_id (f r) = t_id r \<and> t_user_id (f r) = t_user_id r
       \<and> t_created_at (f r) = t_created_at r \<and> t_updated_at (f r) = t_updated_at r"
    using ih fr(1-4) by (simp add: f)
  have cells: "cell_of c (f r) = cell_of c r" if "Some c \<notin> set (map target (a # as))"
  proof -
    from that have "target a \<noteq> Some c" and "Some c \<notin> set (map target as)"
      by auto
    with ih fr(5) [where c = c] show ?thesis
      by (simp add: f)
  qed
  have due: "t_due_date (f r) = t_due_date r" if "None \<notin> set (map target (a # as))"
  proof -
    from that have "target a \<noteq> None" and "None \<notin> set (map target as)"
      by auto
    with ih fr(6) show ?thesis
      by (simp add: f)
  qed
  show ?case
    using basic cells due by blast
qed

lemma convert_assignments_set_text:
  assumes "convert_assignments sc asg = Inr f" and "distinct (map target asg)"
    and "SetText c v \<in> set asg"
  shows "\<exists>p. to_mysql v = Inr p \<and> text_column sc c p = Inr (cell_of c (f r))"
  using assms
proof (induction asg arbitrary: f r)
  case Nil
  then show ?case by simp
next
  case (Cons a as)
  from Cons.prems(1) obtain fa g where fa: "convert_assignment sc a = Inr fa"
    and g: "convert_assignments sc as = Inr g" and f: "f = (\<lambda>r. g (fa r))"
    by (auto simp add: and_then_def split: sum.splits)
  show ?case
  proof (cases "a = SetText c v")
    case True
    with Cons.prems(2) have "Some c \<notin> set (map target as)"
      by simp
    with convert_assignments_frame [OF g, where r = "fa r" and c = c]
    have keep: "cell_of c (g (fa r)) = cell_of c (fa r)"
      by simp
    from fa True obtain p where "to_mysql v = Inr p" "text_column sc c p = Inr (cell_of c (fa r))"
      by (cases c) (auto simp add: and_then_def split: sum.splits)
    with keep show ?thesis
      by (simp add: f)
  next
    case False
    with Cons.prems have "SetText c v \<in> set as" "distinct (map target as)"
      by simp_all
    from Cons.IH [OF g this(2) this(1), where r = "fa r"] show ?thesis
      by (simp add: f)
  qed
qed

lemma convert_assignments_set_due:
  assumes "convert_assignments sc asg = Inr f" and "distinct (map target asg)"
    and "SetDueDate v \<in> set asg"
  shows "\<exists>p. to_mysql v = Inr p \<and> date_column sc p = Inr (t_due_date (f r))"
  using assms
proof (induction asg arbitrary: f r)
  case Nil
  then show ?case by simp
next
  case (Cons a as)
  from Cons.prems(1) obtain fa g where fa: "convert_assignment sc a = Inr fa"
    and g: "convert_assignments sc as = Inr g" and f: "f = (\<lambda>r. g (fa r))"
    by (auto simp add: and_then_def split: sum.splits)
  show ?case
  proof (cases "a = SetDueDate v")
    case True
    with Cons.prems(2) have "None \<notin> set (map target as)"
      by simp
    with convert_assignments_frame [OF g, where r = "fa r"]
    have keep: "t_due_date (g (fa r)) = t_due_date (fa r)"
      by simp
    from fa True obtain p where "to_mysql v = Inr p" "date_column sc p = Inr (t_due_date (fa r))"
      by (auto simp add: and_then_def split: sum.splits)
    with keep show ?thesis
      by (simp add: f)
  next
    case False
    with Cons.prems have "SetDueDate v \<in> set as" "distinct (map target as)"
      by simp_all
    from Cons.IH [OF g this(2) this(1), where r = "fa r"] show ?thesis
      by (simp add: f)
  qed
qed

lemma cell_of_updated_at [simp]: "cell_of c (r\<lparr>t_updated_at := n\<rparr>) = cell_of c r"
  by (cases c) simp_all

text \<open>The outcomes of an update with a dict body.\<close>

lemma update_task_dict_cases:
  obtains (unchanged) "o_db (update_task sc now task_id (PDict kvs) s d p) = d"
  | (updated) asg f where "build_update (PDict kvs) = Inr asg" and "asg \<noteq> []"
      and "convert_assignments sc asg = Inr f"
      and "o_code (update_task sc now task_id (PDict kvs) s d p) = 200"
      and "o_db (update_task sc now task_id (PDict kvs) s d p)
           = d\<lparr>tasks := map (\<lambda>r. if t_id r = task_id then (f r)\<lparr>t_updated_at := now\<rparr> else r)
                              (tasks d)\<rparr>"
proof -
  obtain asg where asg: "build_update (PDict kvs) = Inr asg"
    by (simp add: build_update_dict)
  show thesis
  proof (cases "convert_assignments sc asg")
    case (Inl e)
    then have "o_db (update_task sc now task_id (PDict kvs) s d p) = d"
      by (simp add: update_task_def login_required_def reply_def asg execute_update_def
          and_then_def split: option.splits)
    then show thesis by (rule unchanged)
  next
    case (Inr f)
    show thesis
    proof (cases "s_user_id s \<noteq> None \<and> get_db_connection p \<noteq> None \<and> owned d task_id (the (s_user_id s))
                  \<and> asg \<noteq> []")
      case True
      then have "o_code (update_task sc now task_id (PDict kvs) s d p) = 200"
        and "o_db (update_task sc now task_id (PDict kvs) s d p)
           = d\<lparr>tasks := map (\<lambda>r. if t_id r = task_id then (f r)\<lparr>t_updated_at := now\<rparr> else r)
                              (tasks d)\<rparr>"
        using Inr
        by (auto simp add: update_task_def login_required_def reply_def asg execute_update_def
            and_then_def split: option.splits)
      with asg True Inr show thesis
        by (intro updated [of asg f]) auto
    next
      case False
      then have "o_db (update_task sc now task_id (PDict kvs) s d p) = d"
        by (auto simp add: update_task_def login_required_def reply_def asg execute_update_def
            and_then_def split: option.splits)
      then show thesis by (rule unchanged)
    qed
  qed
qed

lemma update_task_dict_200:
  assumes "o_code (update_task sc now task_id (PDict kvs) s d p) = 200"
    and "build_update (PDict kvs) = Inr asg" and "asg \<noteq> []"
  obtains f where "convert_assignments sc asg = Inr f"
    and "o_db (update_task sc now task_id (PDict kvs) s d p)
           = d\<lparr>tasks := map (\<lambda>r. if t_id r = task_id then (f r)\<lparr>t_updated_at := now\<rparr> else r)
                              (tasks d)\<rparr>"
  using assms
  by (auto simp add: update_task_def login_required_def reply_def execute_update_def
      and_then_def split: option.splits if_splits sum.splits)

lemma updated_rows:
  assumes "r' \<in> set (map (\<lambda>r. if t_id r = task_id then (f r)\<lparr>t_updated_at := now\<rparr> else r) rs)"
    and "t_id r' = task_id"
  obtains r where "r \<in> set rs" and "r' = (f r)\<lparr>t_updated_at := now\<rparr>"
  using assms by (auto split: if_splits)

text \<open>The paths of \<open>update_task\<close> that answer 200 or 404 give the connection back.\<close>

lemma update_task_closes_on_return:
  assumes "o_code (update_task sc now task_id data s d p) = 200
         \<or> o_code (update_task sc now task_id data s d p) = 404"
  shows "o_pool (update_task sc now task_id data s d p) = p"
proof (cases "s_user_id s")
  case None
  with assms show ?thesis
    by (simp add: update_task_def login_required_def)
next
  case (Some uid)
  show ?thesis
  proof (cases "get_db_connection p")
    case None
    with Some assms show ?thesis
      by (simp add: update_task_def login_required_def reply_def)
  next
    case (Some p1)
    note restored = pool_restored [OF Some]
    from assms \<open>s_user_id s = Some uid\<close> Some restored show ?thesis
      by (auto simp add: update_task_def login_required_def reply_def
          split: if_splits sum.splits)
  qed
qed

subsection \<open>A successful creation\<close>

lemma create_task_201:
  assumes "o_code (create_task sc now (PDict kvs) s d p) = 201" and "s_user_id s = Some uid"
  obtains title p1 b2 b3 b4 c1 c2 c3 c4 where
    "map_of kvs ''title'' = Some title" and "get_db_connection p = Some p1"
    and "to_mysql (case map_of kvs ''description'' of None \<Rightarrow> PStr [] | Some v \<Rightarrow> v) = Inr b2"
    and "text_column sc Description b2 = Inr c2"
    and "to_mysql (case map_of kvs ''priority'' of None \<Rightarrow> PStr ''medium'' | Some v \<Rightarrow> v) = Inr b3"
    and "text_column sc Priority b3 = Inr c3"
    and "to_mysql (if truthy (case map_of kvs ''due_date'' of None \<Rightarrow> PNone | Some v \<Rightarrow> v)
                   then (case map_of kvs ''due_date'' of None \<Rightarrow> PNone | Some v \<Rightarrow> v)
                   else PNone) = Inr b4"
    and "date_column sc b4 = Inr c4"
    and "create_task sc now (PDict kvs) s d p
         = reply 201 (JCreated (auto_increment d) title)
             (d\<lparr>tasks := tasks d @
                   [\<lparr>t_id = auto_increment d, t_user_id = uid, t_title = c1,
                     t_description = c2, t_status = default_status sc, t_priority = c3,
                     t_due_date = c4, t_created_at = now, t_updated_at = now\<rparr>],
                 auto_increment := auto_increment d + 1\<rparr>)
             (conn_close p1)"
proof -
  from assms obtain title where t: "map_of kvs ''title'' = Some title" and tt: "truthy title"
    by (cases "map_of kvs ''title''")
       (auto simp add: create_task_def login_required_def reply_def split: if_splits)
  from assms t tt obtain p1 where p1: "get_db_connection p = Some p1"
    by (cases "get_db_connection p")
       (auto simp add: create_task_def login_required_def reply_def split: if_splits)
  let ?ds = "case map_of kvs ''description'' of None \<Rightarrow> PStr [] | Some v \<Rightarrow> v"
  let ?pr = "case map_of kvs ''priority'' of None \<Rightarrow> PStr ''medium'' | Some v \<Rightarrow> v"
  let ?du = "case map_of kvs ''due_date'' of None \<Rightarrow> PNone | Some v \<Rightarrow> v"
  let ?due = "if truthy ?du then ?du else PNone"
  have nonempty: "kvs \<noteq> []"
    using t by auto
  have step: "create_task sc now (PDict kvs) s d p =
      (case execute_insert sc now uid title ?ds ?pr ?due d of
         Inl e \<Rightarrow> reply 500 (JException e) d p1
       | Inr (task_id, d') \<Rightarrow> reply 201 (JCreated task_id title) d' (conn_close p1))"
    using assms(2) t tt p1 nonempty
    by (simp add: create_task_def login_required_def and_then_def split: sum.splits)
  from assms(1) obtain task_id d' where ins: "execute_insert sc now uid title ?ds ?pr ?due d = Inr (task_id, d')"
    unfolding step by (auto simp add: reply_def split: sum.splits)
  then obtain b1 b2 b3 b4 c1 c2 c3 c4 where
      "to_mysql title = Inr b1" "to_mysql ?ds = Inr b2" "to_mysql ?pr = Inr b3"
      "to_mysql ?due = Inr b4" "text_column sc Title b1 = Inr c1"
      "text_column sc Description b2 = Inr c2" "text_column sc Priority b3 = Inr c3"
      "date_column sc b4 = Inr c4"
      "task_id = auto_increment d"
      "d' = d\<lparr>tasks := tasks d @
                   [\<lparr>t_id = auto_increment d, t_user_id = uid, t_title = c1,
                     t_description = c2, t_status = default_status sc, t_priority = c3,
                     t_due_date = c4, t_created_at = now, t_updated_at = now\<rparr>],
                 auto_increment := auto_increment d + 1\<rparr>"
    by (auto simp add: execute_insert_def and_then_Inr)
  with t p1 step ins show thesis
    by (intro that [of title p1 b2 c2 b3 c3 b4 c4 c1]) simp_all
qed

section \<open>Ownership\<close>

text \<open>
  C1. Let \<open>id\<close> be a key of \<open>tasks\<close>, let a task \<open>r\<close> belong to user \<open>a\<close>, and let another
  user \<open>b\<close> be signed in with a connection at hand. Then the task list answered to \<open>b\<close>
  holds only tasks of \<open>b\<close> and not \<open>r\<close>; an update of \<open>r\<close> by \<open>b\<close>, whatever its body, is
  answered 404 and leaves the tables as they were; and so does a delete of \<open>r\<close> by \<open>b\<close>.
\<close>

theorem ownership_isolation:
  assumes "distinct (map t_id (tasks d))"
    and "r \<in> set (tasks d)" and "t_user_id r = a" and "a \<noteq> b"
    and "s_user_id s = Some b" and "get_db_connection p = Some p1"
  shows "(\<exists>vs. o_body (get_tasks s d p) = JTasks vs
            \<and> (\<forall>v \<in> set vs. \<exists>r' \<in> set (tasks d). v_id v = t_id r' \<and> t_user_id r' = b)
            \<and> t_id r \<notin> v_id ` set vs)
       \<and> o_code (update_task sc now (t_id r) data s d p) = 404
       \<and> o_db (update_task sc now (t_id r) data s d p) = d
       \<and> o_code (delete_task (t_id r) s d p) = 404
       \<and> o_db (delete_task (t_id r) s d p) = d"
proof -
  have no: "\<not> (\<exists>r' \<in> set (tasks d). t_id r' = t_id r \<and> t_user_id r' = b)"
    using assms(1-4) by (intro not_owned_other) auto
  have body: "o_body (get_tasks s d p) = JTasks (select_tasks d b)"
    using assms(5,6) by (simp add: get_tasks_def login_required_def reply_def)
  have from_b:
    "\<forall>v \<in> set (select_tasks d b). \<exists>r' \<in> set (tasks d). v_id v = t_id r' \<and> t_user_id r' = b"
    by (auto simp add: select_tasks_set task_view_of_def)
  have absent: "t_id r \<notin> v_id ` set (select_tasks d b)"
    using no from_b by force
  have "\<not> owned d (t_id r) b"
    using no by (auto simp add: owned_def filter_empty_conv)
  then have upd: "update_task sc now (t_id r) data s d p
                  = reply 404 (JError ''Task not found'') d (conn_close p1)"
    using assms(5,6) by (simp add: update_task_def login_required_def)
  have del: "delete_task (t_id r) s d p = reply 404 (JError ''Task not found'') d (conn_close p1)"
    using delete_task_outcome [OF assms(5,6), of "t_id r" d] no by simp
  show ?thesis
    using body from_b absent by (simp add: upd del reply_def)
qed

theorem ownership_isolation_witness:
  "distinct (map t_id (tasks example_db)) \<and> milk \<in> set (tasks example_db)
   \<and> t_user_id milk = 1 \<and> (1 :: int) \<noteq> 2 \<and> s_user_id bob_session = Some 2
   \<and> get_db_connection full_pool = Some \<lparr>created = True, idle = 4\<rparr>
   \<and> o_code (update_task example_schema 200 (t_id milk)
               (PDict [(''title'', PStr ''taken'')]) bob_session example_db full_pool) = 404
   \<and> o_db (delete_task (t_id milk) bob_session example_db full_pool) = example_db"
proof -
  have h1: "distinct (map t_id (tasks example_db))"
    by (simp add: example_db_def milk_def rent_def taxes_def)
  have h2: "milk \<in> set (tasks example_db)"
    by (simp add: example_db_def)
  have h3: "t_user_id milk = 1"
    by (simp add: milk_def)
  have h4: "(1 :: int) \<noteq> 2"
    by simp
  have h5: "s_user_id bob_session = Some 2"
    by (simp add: bob_session_def)
  have h6: "get_db_connection full_pool = Some \<lparr>created = True, idle = 4\<rparr>"
    by (simp add: get_db_connection_def full_pool_def)
  from ownership_isolation [OF h1 h2 h3 h4 h5 h6, of example_schema 200
      "PDict [(''title'', PStr ''taken'')]"]
  show ?thesis
    using h1 h2 h3 h5 h6 by simp
qed

section \<open>Connections\<close>

text \<open>
  C2. The handlers close the connection on the paths that return from inside the \<open>try\<close>,
  but the \<open>except\<close> clauses return without closing it. For an update whose parsed body
  is \<open>None\<close>, sent by the owner of the task: the handler takes a connection, the test
  \<open>'title' in data\<close> raises, and the response is 500 with the pool left one connection
  short of what it held when the request came in.
\<close>

theorem update_task_leaks_connection:
  assumes "s_user_id s = Some uid" and "get_db_connection p = Some p1"
    and "owned d task_id uid"
  shows "o_code (update_task sc now task_id PNone s d p) = 500
       \<and> o_pool (update_task sc now task_id PNone s d p) = p1
       \<and> idle p1 < idle p"
  using assms
  by (auto simp add: update_task_def login_required_def reply_def build_update_None
      get_db_connection_def split: if_splits)

theorem update_task_leaks_connection_witness:
  "s_user_id alice_session = Some 1
   \<and> get_db_connection full_pool = Some \<lparr>created = True, idle = 4\<rparr>
   \<and> owned example_db 1 1
   \<and> o_code (update_task example_schema 200 1 PNone alice_session example_db full_pool) = 500
   \<and> idle (o_pool (update_task example_schema 200 1 PNone alice_session example_db full_pool))
       = 4
   \<and> idle full_pool = 5"
proof -
  have h1: "s_user_id alice_session = Some 1"
    by (simp add: alice_session_def)
  have h2: "get_db_connection full_pool = Some \<lparr>created = True, idle = 4\<rparr>"
    by (simp add: get_db_connection_def full_pool_def)
  have h3: "owned example_db 1 1"
    by (simp add: owned_def example_db_def milk_def rent_def taxes_def)
  from update_task_leaks_connection [OF h1 h2 h3, of example_schema 200]
  show ?thesis
    using h1 h2 h3 by (simp add: full_pool_def)
qed

section \<open>Partial update\<close>

text \<open>
  C3, as stated, fails where it says that a null value is stored as NULL for \<open>due_date\<close>
  only: in the example store an update with \<open>{"description": null}\<close> is answered 200 and
  leaves NULL in \<open>description\<close>.
\<close>

theorem update_null_description_counterexample:
  "o_code (update_task example_schema 200 1 (PDict [(''description'', PNone)])
             alice_session example_db full_pool) = 200
   \<and> map t_description (tasks example_db) = [Some [], Some ''monthly'', Some ''forms'']
   \<and> map t_description
         (tasks (o_db (update_task example_schema 200 1 (PDict [(''description'', PNone)])
                         alice_session example_db full_pool)))
       = [None, Some ''monthly'', Some ''forms'']"
  by (simp add: update_defs handler_defs example_defs)

text \<open>
  C3, amended. For an update whose body is an object: (1) every row keeps its id, owner
  and creation time, a column whose key is absent from the body keeps its cell, and rows
  of another id are untouched; (2) when none of the five keys is present the owner's
  request is answered 200 with the tables exactly as they were; (3) when the answer is
  200, a key that is present has its value bound as it is for \<open>title\<close>, \<open>description\<close>,
  \<open>status\<close> and \<open>priority\<close>, so that a null is bound as NULL for these too and the column
  holds what the store writes for NULL, while for \<open>due_date\<close> every value that is not
  true in Python (null, the empty string, 0, false, an empty list or object) is bound as
  NULL.
\<close>

theorem update_task_partial_patch:
  "list_all2
     (\<lambda>r r'. t_id r' = t_id r \<and> t_user_id r' = t_user_id r \<and> t_created_at r' = t_created_at r
         \<and> (\<forall>c. map_of kvs (column_key c) = None \<longrightarrow> cell_of c r' = cell_of c r)
         \<and> (map_of kvs ''due_date'' = None \<longrightarrow> t_due_date r' = t_due_date r)
         \<and> (t_id r \<noteq> task_id \<longrightarrow> r' = r))
     (tasks d) (tasks (o_db (update_task sc now task_id (PDict kvs) s d p)))
   \<and> (s_user_id s = Some uid \<and> get_db_connection p = Some p1 \<and> owned d task_id uid
        \<and> (\<forall>c. map_of kvs (column_key c) = None) \<and> map_of kvs ''due_date'' = None
      \<longrightarrow> update_task sc now task_id (PDict kvs) s d p
          = reply 200 (JMessage ''Task updated successfully'') d (conn_close p1))
   \<and> (o_code (update_task sc now task_id (PDict kvs) s d p) = 200 \<longrightarrow>
        (\<forall>c v. map_of kvs (column_key c) = Some v \<longrightarrow>
           (\<exists>b. to_mysql v = Inr b
              \<and> (\<forall>r' \<in> set (tasks (o_db (update_task sc now task_id (PDict kvs) s d p))).
                    t_id r' = task_id \<longrightarrow> text_column sc c b = Inr (cell_of c r'))))
      \<and> (\<forall>c. map_of kvs (column_key c) = Some PNone \<longrightarrow>
           (\<forall>r' \<in> set (tasks (o_db (update_task sc now task_id (PDict kvs) s d p))).
              t_id r' = task_id \<longrightarrow> text_column sc c SNull = Inr (cell_of c r')))
      \<and> (\<forall>v. map_of kvs ''due_date'' = Some v \<longrightarrow>
           (\<exists>b. to_mysql (if truthy v then v else PNone) = Inr b
              \<and> (\<forall>r' \<in> set (tasks (o_db (update_task sc now task_id (PDict kvs) s d p))).
                    t_id r' = task_id \<longrightarrow> date_column sc b = Inr (t_due_date r'))))
      \<and> (\<forall>v. map_of kvs ''due_date'' = Some v \<and> \<not> truthy v \<longrightarrow>
           (\<forall>r' \<in> set (tasks (o_db (update_task sc now task_id (PDict kvs) s d p))).
              t_id r' = task_id \<longrightarrow> date_column sc SNull = Inr (t_due_date r'))))"
  (is "?frame \<and> ?noop \<and> ?bound")
proof -
  let ?out = "update_task sc now task_id (PDict kvs) s d p"
  obtain asg where asg: "build_update (PDict kvs) = Inr asg"
    by (simp add: build_update_dict)
  note props = build_update_dict_props [OF asg]
  have frame: ?frame
  proof (cases rule: update_task_dict_cases [of sc now task_id kvs s d p])
    case unchanged
    then show ?thesis
      by (simp add: list_all2_same)
  next
    case (updated asg' f)
    with asg have [simp]: "asg' = asg"
      by simp
    have absent: "Some c \<notin> set (map target asg)" if "map_of kvs (column_key c) = None" for c
    proof
      assume "Some c \<in> set (map target asg)"
      then obtain a where a: "a \<in> set asg" "target a = Some c"
        by auto
      from a(2) obtain v where "a = SetText c v"
        by (cases a) auto
      with a(1) have "SetText c v \<in> set asg"
        by simp
      with props(2) that show False
        by simp
    qed
    have absent_due: "None \<notin> set (map target asg)" if "map_of kvs ''due_date'' = None"
    proof
      assume "None \<in> set (map target asg)"
      then obtain a where a: "a \<in> set asg" "target a = None"
        by force
      from a(2) obtain w where "a = SetDueDate w"
        by (cases a) auto
      with a(1) have "SetDueDate w \<in> set asg"
        by simp
      with props(3) that show False
        by blast
    qed
    note fr = convert_assignments_frame [OF updated(3) [simplified]]
    show ?thesis
      unfolding updated(5)
      using fr absent absent_due
      by (simp add: list_all2_map2 list_all2_same)
  qed
  have noop: ?noop
    using props(5)
    by (auto simp add: update_task_def login_required_def reply_def asg)
  have bound: ?bound
  proof
    assume ok: "o_code ?out = 200"
    have bound_text: "\<exists>b. to_mysql v = Inr b
              \<and> (\<forall>r' \<in> set (tasks (o_db ?out)). t_id r' = task_id
                    \<longrightarrow> text_column sc c b = Inr (cell_of c r'))"
      if key: "map_of kvs (column_key c) = Some v" for c v
    proof -
      from key props(2) have mem: "SetText c v \<in> set asg"
        by simp
      then have "asg \<noteq> []"
        by auto
      from update_task_dict_200 [OF ok asg this] obtain f
        where f: "convert_assignments sc asg = Inr f"
          and db: "o_db ?out = d\<lparr>tasks := map (\<lambda>r. if t_id r = task_id
                                   then (f r)\<lparr>t_updated_at := now\<rparr> else r) (tasks d)\<rparr>"
        by blast
      from convert_assignments_set_text [OF f props(1) mem]
      have ex: "\<exists>b. to_mysql v = Inr b \<and> text_column sc c b = Inr (cell_of c (f r))" for r
        by blast
      then obtain b where b: "to_mysql v = Inr b"
        by blast
      have "text_column sc c b = Inr (cell_of c r')"
        if "r' \<in> set (tasks (o_db ?out))" and "t_id r' = task_id" for r'
      proof -
        from that obtain r where "r' = (f r)\<lparr>t_updated_at := now\<rparr>"
          unfolding db by (auto elim: updated_rows)
        with ex [of r] b show ?thesis
          by simp
      qed
      with b show ?thesis
        by blast
    qed
    have due: "\<exists>b. to_mysql (if truthy v then v else PNone) = Inr b
              \<and> (\<forall>r' \<in> set (tasks (o_db ?out)). t_id r' = task_id
                    \<longrightarrow> date_column sc b = Inr (t_due_date r'))"
      if key: "map_of kvs ''due_date'' = Some v" for v
    proof -
      from props(4) [OF key] have mem: "SetDueDate (if truthy v then v else PNone) \<in> set asg" .
      then have "asg \<noteq> []"
        by auto
      from update_task_dict_200 [OF ok asg this] obtain f
        where f: "convert_assignments sc asg = Inr f"
          and db: "o_db ?out = d\<lparr>tasks := map (\<lambda>r. if t_id r = task_id
                                   then (f r)\<lparr>t_updated_at := now\<rparr> else r) (tasks d)\<rparr>"
        by blast
      from convert_assignments_set_due [OF f props(1) mem]
      have ex: "\<exists>b. to_mysql (if truthy v then v else PNone) = Inr b
                  \<and> date_column sc b = Inr (t_due_date (f r))" for r
        by blast
      then obtain b where b: "to_mysql (if truthy v then v else PNone) = Inr b"
        by blast
      have "date_column sc b = Inr (t_due_date r')"
        if "r' \<in> set (tasks (o_db ?out))" and "t_id r' = task_id" for r'
      proof -
        from that obtain r where "r' = (f r)\<lparr>t_updated_at := now\<rparr>"
          unfolding db by (auto elim: updated_rows)
        with ex [of r] b show ?thesis
          by simp
      qed
      with b show ?thesis
        by blast
    qed
    have text_null: "\<forall>r' \<in> set (tasks (o_db ?out)). t_id r' = task_id
                    \<longrightarrow> text_column sc c SNull = Inr (cell_of c r')"
      if "map_of kvs (column_key c) = Some PNone" for c
      using bound_text [OF that] by simp
    have due_null: "\<forall>r' \<in> set (tasks (o_db ?out)). t_id r' = task_id
                    \<longrightarrow> date_column sc SNull = Inr (t_due_date r')"
      if "map_of kvs ''due_date'' = Some v \<and> \<not> truthy v" for v
      using due [of v] that by simp
    show "(\<forall>c v. map_of kvs (column_key c) = Some v \<longrightarrow>
           (\<exists>b. to_mysql v = Inr b
              \<and> (\<forall>r' \<in> set (tasks (o_db ?out)).
                    t_id r' = task_id \<longrightarrow> text_column sc c b = Inr (cell_of c r'))))
      \<and> (\<forall>c. map_of kvs (column_key c) = Some PNone \<longrightarrow>
           (\<forall>r' \<in> set (tasks (o_db ?out)).
              t_id r' = task_id \<longrightarrow> text_column sc c SNull = Inr (cell_of c r')))
      \<and> (\<forall>v. map_of kvs ''due_date'' = Some v \<longrightarrow>
           (\<exists>b. to_mysql (if truthy v then v else PNone) = Inr b
              \<and> (\<forall>r' \<in> set (tasks (o_db ?out)).
                    t_id r' = task_id \<longrightarrow> date_column sc b = Inr (t_due_date r'))))
      \<and> (\<forall>v. map_of kvs ''due_date'' = Some v \<and> \<not> truthy v \<longrightarrow>
           (\<forall>r' \<in> set (tasks (o_db ?out)).
              t_id r' = task_id \<longrightarrow> date_column sc SNull = Inr (t_due_date r')))"
      using bound_text due text_null due_null by blast
  qed
  show ?thesis
    by (rule conjI [OF frame conjI [OF noop bound]])
qed

theorem update_task_partial_patch_witness:
  "o_code (update_task example_schema 200 1 (PDict [(''due_date'', PStr [])])
             alice_session example_db full_pool) = 200
   \<and> list_all2
       (\<lambda>r r'. t_id r' = t_id r \<and> t_user_id r' = t_user_id r \<and> t_created_at r' = t_created_at r
           \<and> (\<forall>c. map_of [(''due_date'', PStr [])] (column_key c) = None
                  \<longrightarrow> cell_of c r' = cell_of c r)
           \<and> (map_of [(''due_date'', PStr [])] ''due_date'' = None
                  \<longrightarrow> t_due_date r' = t_due_date r)
           \<and> (t_id r \<noteq> 1 \<longrightarrow> r' = r))
       (tasks example_db)
       (tasks (o_db (update_task example_schema 200 1 (PDict [(''due_date'', PStr [])])
                       alice_session example_db full_pool)))
   \<and> map t_due_date (tasks example_db) = [Some 20240101, None, Some 20230415]
   \<and> map t_due_date
         (tasks (o_db (update_task example_schema 200 1 (PDict [(''due_date'', PStr [])])
                         alice_session example_db full_pool)))
       = [None, None, Some 20230415]"
proof -
  have ev: "o_code (update_task example_schema 200 1 (PDict [(''due_date'', PStr [])])
             alice_session example_db full_pool) = 200
   \<and> map t_due_date (tasks example_db) = [Some 20240101, None, Some 20230415]
   \<and> map t_due_date
         (tasks (o_db (update_task example_schema 200 1 (PDict [(''due_date'', PStr [])])
                         alice_session example_db full_pool)))
       = [None, None, Some 20230415]"
    by (simp add: update_defs handler_defs example_defs)
  from update_task_partial_patch [of "[(''due_date'', PStr [])]" 1 example_db example_schema
      200 alice_session full_pool]
  have "list_all2
       (\<lambda>r r'. t_id r' = t_id r \<and> t_user_id r' = t_user_id r \<and> t_created_at r' = t_created_at r
           \<and> (\<forall>c. map_of [(''due_date'', PStr [])] (column_key c) = None
                  \<longrightarrow> cell_of c r' = cell_of c r)
           \<and> (map_of [(''due_date'', PStr [])] ''due_date'' = None
                  \<longrightarrow> t_due_date r' = t_due_date r)
           \<and> (t_id r \<noteq> 1 \<longrightarrow> r' = r))
       (tasks example_db)
       (tasks (o_db (update_task example_schema 200 1 (PDict [(''due_date'', PStr [])])
                       alice_session example_db full_pool)))"
    by (rule conjunct1)
  with ev show ?thesis
    by blast
qed

section \<open>Creation without a title\<close>

text \<open>
  C4. A signed-in request to create a task whose body is true in Python without being an
  object (a non-empty string or list, a number other than 0, \<open>true\<close>) has no \<open>title\<close> key.
  The title check \<open>data.get('title')\<close> raises \<open>AttributeError\<close> on it, before the \<open>try\<close>:
  the answer is the 500 page of the application and not 400. No connection is taken and
  the tables are unchanged.
\<close>

theorem create_task_non_object_body:
  assumes "s_user_id s = Some uid" and "truthy data" and "\<forall>kvs. data \<noteq> PDict kvs"
  shows "o_code (create_task sc now data s d p) = 500
       \<and> o_body (create_task sc now data s d p) = Template ''500.html''
       \<and> o_db (create_task sc now data s d p) = d
       \<and> o_pool (create_task sc now data s d p) = p"
  using assms
  by (cases data) (simp_all add: create_task_def login_required_def reply_def)

theorem create_task_non_object_body_witness:
  "s_user_id alice_session = Some 1 \<and> truthy (PStr ''Buy milk'')
   \<and> (\<forall>kvs. PStr ''Buy milk'' \<noteq> PDict kvs)
   \<and> o_code (create_task example_schema 200 (PStr ''Buy milk'')
               alice_session example_db full_pool) = 500
   \<and> o_body (create_task example_schema 200 (PStr ''Buy milk'')
               alice_session example_db full_pool) = Template ''500.html''
   \<and> o_db (create_task example_schema 200 (PStr ''Buy milk'')
               alice_session example_db full_pool) = example_db"
proof -
  have h1: "s_user_id alice_session = Some 1"
    by (simp add: alice_session_def)
  have h2: "truthy (PStr ''Buy milk'')"
    by simp
  have h3: "\<forall>kvs. PStr ''Buy milk'' \<noteq> PDict kvs"
    by simp
  from create_task_non_object_body [OF h1 h2 h3, of example_schema 200 example_db full_pool]
  show ?thesis
    using h1 by simp
qed

text \<open>
  On the bodies the title check covers, the answer is as the spec has it: a body that is
  absent or empty (not true in Python), or an object without the key \<open>title\<close> or with a
  \<open>title\<close> that is empty (or otherwise not true in Python), is answered 400
  \<open>Title is required\<close>; no connection is taken and the tables are unchanged.
\<close>

lemma create_task_title_required:
  assumes "s_user_id s = Some uid"
    and "\<not> truthy data
       \<or> (\<exists>kvs. data = PDict kvs
             \<and> (map_of kvs ''title'' = None
                \<or> (\<exists>t. map_of kvs ''title'' = Some t \<and> \<not> truthy t)))"
  shows "o_code (create_task sc now data s d p) = 400
       \<and> o_body (create_task sc now data s d p) = JError ''Title is required''
       \<and> o_db (create_task sc now data s d p) = d
       \<and> o_pool (create_task sc now data s d p) = p"
  using assms
  by (auto simp add: create_task_def login_required_def reply_def)

section \<open>Deletion\<close>

text \<open>
  C5. For a signed-in user holding a connection, a delete is answered 404 exactly when no
  row matches the pair of task id and user id, which is the case exactly when no task has
  that id or the tasks of that id belong to other users. In both cases the outcome is the
  same reply 404 \<open>Task not found\<close> with the tables as they were. When a row matches, the
  answer is 200 and the matching rows are gone.
\<close>

theorem delete_task_not_found_iff:
  assumes "s_user_id s = Some uid" and "get_db_connection p = Some p1"
  shows "(o_code (delete_task task_id s d p) = 404
            \<longleftrightarrow> \<not> (\<exists>r \<in> set (tasks d). t_id r = task_id \<and> t_user_id r = uid))
       \<and> (\<not> (\<exists>r \<in> set (tasks d). t_id r = task_id \<and> t_user_id r = uid)
            \<longleftrightarrow> (\<forall>r \<in> set (tasks d). t_id r \<noteq> task_id)
              \<or> (\<exists>r \<in> set (tasks d). t_id r = task_id)
                \<and> (\<forall>r \<in> set (tasks d). t_id r = task_id \<longrightarrow> t_user_id r \<noteq> uid))
       \<and> (\<not> (\<exists>r \<in> set (tasks d). t_id r = task_id \<and> t_user_id r = uid)
            \<longrightarrow> delete_task task_id s d p
                = reply 404 (JError ''Task not found'') d (conn_close p1))
       \<and> ((\<exists>r \<in> set (tasks d). t_id r = task_id \<and> t_user_id r = uid)
            \<longrightarrow> delete_task task_id s d p
                = reply 200 (JMessage ''Task deleted successfully'')
                    (d\<lparr>tasks := filter (\<lambda>r. \<not> (t_id r = task_id \<and> t_user_id r = uid))
                                       (tasks d)\<rparr>)
                    (conn_close p1))"
proof -
  let ?m = "\<exists>r \<in> set (tasks d). t_id r = task_id \<and> t_user_id r = uid"
  note out = delete_task_outcome [OF assms, of task_id d]
  have c1: "o_code (delete_task task_id s d p) = 404 \<longleftrightarrow> \<not> ?m"
    by (simp add: out reply_def)
  have c2: "\<not> ?m \<longleftrightarrow> (\<forall>r \<in> set (tasks d). t_id r \<noteq> task_id)
              \<or> (\<exists>r \<in> set (tasks d). t_id r = task_id)
                \<and> (\<forall>r \<in> set (tasks d). t_id r = task_id \<longrightarrow> t_user_id r \<noteq> uid)"
    by blast
  have c3: "\<not> ?m \<longrightarrow> delete_task task_id s d p
                = reply 404 (JError ''Task not found'') d (conn_close p1)"
    by (auto simp add: out)
  have c4: "?m \<longrightarrow> delete_task task_id s d p
                = reply 200 (JMessage ''Task deleted successfully'')
                    (d\<lparr>tasks := filter (\<lambda>r. \<not> (t_id r = task_id \<and> t_user_id r = uid))
                                       (tasks d)\<rparr>)
                    (conn_close p1)"
    by (auto simp add: out)
  show ?thesis
    by (rule conjI [OF c1 conjI [OF c2 conjI [OF c3 c4]]])
qed

theorem delete_task_not_found_iff_witness:
  "s_user_id bob_session = Some 2
   \<and> get_db_connection full_pool = Some \<lparr>created = True, idle = 4\<rparr>
   \<and> o_code (delete_task 1 bob_session example_db full_pool) = 404
   \<and> o_code (delete_task 7 bob_session example_db full_pool) = 404
   \<and> o_body (delete_task 1 bob_session example_db full_pool)
       = o_body (delete_task 7 bob_session example_db full_pool)
   \<and> o_code (delete_task 2 bob_session example_db full_pool) = 200
   \<and> tasks (o_db (delete_task 2 bob_session example_db full_pool)) = [milk, taxes]"
proof -
  have h1: "s_user_id bob_session = Some 2"
    by (simp add: bob_session_def)
  have h2: "get_db_connection full_pool = Some \<lparr>created = True, idle = 4\<rparr>"
    by (simp add: get_db_connection_def full_pool_def)
  have m1: "\<not> (\<exists>r \<in> set (tasks example_db). t_id r = 1 \<and> t_user_id r = 2)"
    by (simp add: example_db_def milk_def rent_def taxes_def)
  have m7: "\<not> (\<exists>r \<in> set (tasks example_db). t_id r = 7 \<and> t_user_id r = 2)"
    by (simp add: example_db_def milk_def rent_def taxes_def)
  have m2: "\<exists>r \<in> set (tasks example_db). t_id r = 2 \<and> t_user_id r = 2"
    by (simp add: example_db_def milk_def rent_def taxes_def)
  have f2: "filter (\<lambda>r. \<not> (t_id r = 2 \<and> t_user_id r = 2)) (tasks example_db) = [milk, taxes]"
    by (simp add: example_db_def milk_def rent_def taxes_def)
  from delete_task_not_found_iff [OF h1 h2, of 1 example_db]
    delete_task_not_found_iff [OF h1 h2, of 7 example_db]
    delete_task_not_found_iff [OF h1 h2, of 2 example_db]
  show ?thesis
    using h1 h2 m1 m7 m2 f2 by (simp add: reply_def)
qed

section \<open>Statistics\<close>

text \<open>
  C6, as stated, fails on a task without a status: in the store where each user has one
  task, the owner sets the status of the overdue task to null. The statistics are
  answered 200; the task is overdue in the words of the spec (its status is not
  \<open>completed\<close>), yet the query does not count it, because a comparison with NULL is not
  true.
\<close>

theorem overdue_null_status_counterexample:
  "o_code (update_task example_schema 200 1 (PDict [(''status'', PNone)])
             alice_session small_db full_pool) = 200
   \<and> o_code (get_stats 20240601 alice_session
               (o_db (update_task example_schema 200 1 (PDict [(''status'', PNone)])
                        alice_session small_db full_pool)) full_pool) = 200
   \<and> o_body (get_stats 20240601 alice_session
               (o_db (update_task example_schema 200 1 (PDict [(''status'', PNone)])
                        alice_session small_db full_pool)) full_pool)
       = JStats \<lparr>status_counts = [(None, 1)], priority_counts = [(Some ''medium'', 1)],
                 overdue_count = 0, total_tasks = 1\<rparr>
   \<and> length (filter (spec_overdue 1 20240601)
               (tasks (o_db (update_task example_schema 200 1 (PDict [(''status'', PNone)])
                               alice_session small_db full_pool)))) = 1"
  by (simp add: update_defs handler_defs example_defs small_db_def get_stats_def
      jsonify_stats_def mixed_keys_def group_count_def overdue_def sql_lt_def sql_ne_def
      spec_overdue_def Let_def)

text \<open>
  C6, amended. Whenever the statistics are answered, \<open>overdue_count\<close> is the number of the
  user's tasks whose \<open>due_date\<close> is set and strictly before the current date and whose
  status is set and is not \<open>completed\<close>. When every task of the user has a status this
  is the number of tasks overdue in the words of the spec. No completed task is counted,
  whatever its \<open>due_date\<close>: the count is the same on the store without its completed
  tasks.
\<close>

theorem overdue_count_exact:
  assumes "s_user_id s = Some uid" and "o_body (get_stats today s d p) = JStats st"
  shows "overdue_count st
           = length (filter (\<lambda>r. t_user_id r = uid
                                \<and> (\<exists>due. t_due_date r = Some due \<and> due < today)
                                \<and> (\<exists>x. t_status r = Some x \<and> x \<noteq> ''completed''))
                            (tasks d))
       \<and> ((\<forall>r \<in> set (tasks d). t_user_id r = uid \<longrightarrow> t_status r \<noteq> None) \<longrightarrow>
            overdue_count st = length (filter (spec_overdue uid today) (tasks d)))
       \<and> (\<forall>st'. o_body (get_stats today s
                          (d\<lparr>tasks := filter (\<lambda>r. t_status r \<noteq> Some ''completed'') (tasks d)\<rparr>) p)
                   = JStats st'
                \<longrightarrow> overdue_count st' = overdue_count st)"
proof -
  have p: "overdue uid today = (\<lambda>r. t_user_id r = uid
                                \<and> (\<exists>due. t_due_date r = Some due \<and> due < today)
                                \<and> (\<exists>x. t_status r = Some x \<and> x \<noteq> ''completed''))"
    by (auto simp add: overdue_def sql_lt_def sql_ne_def fun_eq_iff split: option.splits)
  have oc: "overdue_count st = length (filter (overdue uid today) (tasks d))"
    by (rule get_stats_JStats(2) [OF assms(2,1)])
  have inv: "filter (\<lambda>r. t_status r \<noteq> Some ''completed'' \<and> overdue uid today r) (tasks d)
             = filter (overdue uid today) (tasks d)"
    by (rule filter_cong) (auto simp add: p)
  have c1: "overdue_count st
           = length (filter (\<lambda>r. t_user_id r = uid
                                \<and> (\<exists>due. t_due_date r = Some due \<and> due < today)
                                \<and> (\<exists>x. t_status r = Some x \<and> x \<noteq> ''completed''))
                            (tasks d))"
    using oc by (simp add: p)
  have c2: "overdue_count st = length (filter (spec_overdue uid today) (tasks d))"
    if "\<forall>r \<in> set (tasks d). t_user_id r = uid \<longrightarrow> t_status r \<noteq> None"
  proof -
    have "filter (overdue uid today) (tasks d) = filter (spec_overdue uid today) (tasks d)"
      using that by (intro filter_cong) (auto simp add: p spec_overdue_def split: option.splits)
    with oc show ?thesis
      by simp
  qed
  have c3: "overdue_count st' = overdue_count st"
    if "o_body (get_stats today s
                  (d\<lparr>tasks := filter (\<lambda>r. t_status r \<noteq> Some ''completed'') (tasks d)\<rparr>) p)
          = JStats st'" for st'
    using get_stats_JStats(2) [OF that assms(1)] oc
    by (simp add: inv)
  show ?thesis
    using c1 c2 c3 by blast
qed

theorem overdue_count_exact_witness:
  "s_user_id alice_session = Some 1
   \<and> o_body (get_stats 20240601 alice_session example_db full_pool)
       = JStats \<lparr>status_counts = [(Some ''pending'', 1), (Some ''completed'', 1)],
                 priority_counts = [(Some ''medium'', 1), (Some ''high'', 1)],
                 overdue_count = 1, total_tasks = 2\<rparr>
   \<and> length (filter (\<lambda>r. t_user_id r = 1
                        \<and> (\<exists>due. t_due_date r = Some due \<and> due < 20240601)
                        \<and> (\<exists>x. t_status r = Some x \<and> x \<noteq> ''completed''))
                    (tasks example_db)) = 1"
proof -
  have h1: "s_user_id alice_session = Some 1"
    by (simp add: alice_session_def)
  have h2: "o_body (get_stats 20240601 alice_session example_db full_pool)
       = JStats \<lparr>status_counts = [(Some ''pending'', 1), (Some ''completed'', 1)],
                 priority_counts = [(Some ''medium'', 1), (Some ''high'', 1)],
                 overdue_count = 1, total_tasks = 2\<rparr>"
    by (simp add: get_stats_def login_required_def reply_def get_db_connection_def
        conn_close_def alice_session_def full_pool_def example_db_def milk_def rent_def
        taxes_def group_count_def overdue_def sql_lt_def sql_ne_def Let_def
        jsonify_stats_def mixed_keys_def)
  from overdue_count_exact [OF h1 h2]
  show ?thesis
    using h1 h2 by simp
qed

text \<open>
  C7, as stated, fails on a store in which a user has a task without a status beside a
  task with one: in the example store the owner sets the status of one of her two tasks
  to null. The task list still returns her two tasks, but the statistics are answered 500
  (\<open>jsonify\<close> cannot sort the keys \<open>None\<close> and \<open>completed\<close>), so that there is no
  \<open>total_tasks\<close> to equal their number.
\<close>

theorem stats_mixed_null_counterexample:
  "o_code (update_task example_schema 200 1 (PDict [(''status'', PNone)])
             alice_session example_db full_pool) = 200
   \<and> map t_status
         (tasks (o_db (update_task example_schema 200 1 (PDict [(''status'', PNone)])
                         alice_session example_db full_pool)))
       = [None, Some ''pending'', Some ''completed'']
   \<and> o_code (get_stats 20240601 alice_session
               (o_db (update_task example_schema 200 1 (PDict [(''status'', PNone)])
                        alice_session example_db full_pool)) full_pool) = 500
   \<and> o_body (get_stats 20240601 alice_session
               (o_db (update_task example_schema 200 1 (PDict [(''status'', PNone)])
                        alice_session example_db full_pool)) full_pool)
       = JException TypeError
   \<and> map v_id (select_tasks
                  (o_db (update_task example_schema 200 1 (PDict [(''status'', PNone)])
                           alice_session example_db full_pool)) 1) = [1, 3]
   \<and> o_body (get_tasks alice_session
               (o_db (update_task example_schema 200 1 (PDict [(''status'', PNone)])
                        alice_session example_db full_pool)) full_pool)
       = JTasks (select_tasks
                  (o_db (update_task example_schema 200 1 (PDict [(''status'', PNone)])
                           alice_session example_db full_pool)) 1)"
  by (simp add: update_defs handler_defs example_defs get_stats_def get_tasks_def
      select_tasks_def task_view_of_def jsonify_stats_def mixed_keys_def group_count_def
      Let_def)

text \<open>
  C7, amended. For a signed-in user who is exactly one row of \<open>users\<close>, holding a
  connection: whenever the statistics are answered, \<open>total_tasks\<close> is the sum of the
  values of \<open>status_counts\<close>, the number of rows the task list returns for the same user,
  and the number of the user's rows in \<open>tasks\<close>. The statistics are answered exactly when
  the user's tasks do not hold a NULL status beside a set one, nor a NULL priority beside
  a set one; otherwise the answer is 500.
\<close>

theorem stats_total_tasks:
  assumes "s_user_id s = Some uid" and "get_db_connection p = Some p1"
    and "length (filter (\<lambda>u. u_id u = uid) (users d)) = 1"
  shows "(\<forall>st. o_body (get_stats today s d p) = JStats st \<longrightarrow>
            (\<exists>vs. o_body (get_tasks s d p) = JTasks vs
               \<and> total_tasks st = sum_list (map snd (status_counts st))
               \<and> total_tasks st = length vs
               \<and> total_tasks st = length (filter (\<lambda>r. t_user_id r = uid) (tasks d))))
       \<and> ((\<exists>st. o_body (get_stats today s d p) = JStats st) \<longleftrightarrow>
            \<not> ((\<exists>r \<in> set (tasks d). t_user_id r = uid \<and> t_status r = None)
               \<and> (\<exists>r \<in> set (tasks d). t_user_id r = uid \<and> t_status r \<noteq> None))
          \<and> \<not> ((\<exists>r \<in> set (tasks d). t_user_id r = uid \<and> t_priority r = None)
               \<and> (\<exists>r \<in> set (tasks d). t_user_id r = uid \<and> t_priority r \<noteq> None)))
       \<and> ((\<forall>st. o_body (get_stats today s d p) \<noteq> JStats st) \<longrightarrow>
            get_stats today s d p = reply 500 (JException TypeError) d (conn_close p1))"
proof -
  let ?mine = "filter (\<lambda>r. t_user_id r = uid) (tasks d)"
  note out = get_stats_outcome [OF assms(1,2), of today d]
  have listed: "o_body (get_tasks s d p) = JTasks (select_tasks d uid)"
    using assms(1,2) by (simp add: get_tasks_def login_required_def reply_def)
  have mix_status: "mixed_keys (group_count (map t_status ?mine)) \<longleftrightarrow>
      (\<exists>r \<in> set (tasks d). t_user_id r = uid \<and> t_status r = None)
      \<and> (\<exists>r \<in> set (tasks d). t_user_id r = uid \<and> t_status r \<noteq> None)"
    by (auto simp add: mixed_keys_group_count_map)
  have mix_priority: "mixed_keys (group_count (map t_priority ?mine)) \<longleftrightarrow>
      (\<exists>r \<in> set (tasks d). t_user_id r = uid \<and> t_priority r = None)
      \<and> (\<exists>r \<in> set (tasks d). t_user_id r = uid \<and> t_priority r \<noteq> None)"
    by (auto simp add: mixed_keys_group_count_map)
  have a: "\<exists>vs. o_body (get_tasks s d p) = JTasks vs
               \<and> total_tasks st = sum_list (map snd (status_counts st))
               \<and> total_tasks st = length vs
               \<and> total_tasks st = length (filter (\<lambda>r. t_user_id r = uid) (tasks d))"
    if st: "o_body (get_stats today s d p) = JStats st" for st
  proof -
    note js = get_stats_JStats [OF st assms(1)]
    have "total_tasks st = length ?mine"
      by (simp add: js(3) js(1) group_count_total)
    with js(3) listed show ?thesis
      by (simp add: length_select_tasks [OF assms(3)])
  qed
  have b: "(\<exists>st. o_body (get_stats today s d p) = JStats st) \<longleftrightarrow>
      \<not> mixed_keys (group_count (map t_status ?mine))
      \<and> \<not> mixed_keys (group_count (map t_priority ?mine))"
    unfolding out by (simp add: reply_def)
  have c: "get_stats today s d p = reply 500 (JException TypeError) d (conn_close p1)"
    if "\<forall>st. o_body (get_stats today s d p) \<noteq> JStats st"
    using that unfolding out by (simp add: reply_def split: if_splits)
  show ?thesis
    using a b c unfolding mix_status mix_priority by blast
qed

theorem stats_total_tasks_witness:
  "s_user_id alice_session = Some 1
   \<and> get_db_connection full_pool = Some \<lparr>created = True, idle = 4\<rparr>
   \<and> length (filter (\<lambda>u. u_id u = 1) (users example_db)) = 1
   \<and> o_body (get_stats 20240601 alice_session example_db full_pool)
       = JStats \<lparr>status_counts = [(Some ''pending'', 1), (Some ''completed'', 1)],
                 priority_counts = [(Some ''medium'', 1), (Some ''high'', 1)],
                 overdue_count = 1, total_tasks = 2\<rparr>
   \<and> (\<exists>vs. o_body (get_tasks alice_session example_db full_pool) = JTasks vs
          \<and> length vs = 2)"
proof -
  have h1: "s_user_id alice_session = Some 1"
    by (simp add: alice_session_def)
  have h2: "get_db_connection full_pool = Some \<lparr>created = True, idle = 4\<rparr>"
    by (simp add: get_db_connection_def full_pool_def)
  have h3: "length (filter (\<lambda>u. u_id u = 1) (users example_db)) = 1"
    by (simp add: example_db_def alice_def bob_def)
  have st: "o_body (get_stats 20240601 alice_session example_db full_pool)
       = JStats \<lparr>status_counts = [(Some ''pending'', 1), (Some ''completed'', 1)],
                 priority_counts = [(Some ''medium'', 1), (Some ''high'', 1)],
                 overdue_count = 1, total_tasks = 2\<rparr>"
    by (simp add: get_stats_def login_required_def reply_def get_db_connection_def
        conn_close_def alice_session_def full_pool_def example_db_def milk_def rent_def
        taxes_def group_count_def overdue_def sql_lt_def sql_ne_def Let_def
        jsonify_stats_def mixed_keys_def)
  from stats_total_tasks [OF h1 h2 h3, of 20240601] st
  have "\<exists>vs. o_body (get_tasks alice_session example_db full_pool) = JTasks vs
          \<and> length vs = 2"
    by auto
  with h1 h2 h3 st show ?thesis
    by blast
qed

section \<open>Login\<close>

text \<open>
  C8, as stated, fails when the password check raises, which it can only do for an
  existing user: with the check that raises on a password of more than 72 characters, a
  wrong password of 73 characters ends in \<open>An error occurred during login\<close> for the
  existing user and in \<open>Invalid username or password\<close> for an unknown one.
\<close>

theorem login_failure_signal_counterexample:
  "strip (ustr ''alice'') = u_username alice
   \<and> find (\<lambda>u. u_username u = strip (ustr ''alice'')) (users example_db) = Some alice
   \<and> example_checkpw long_password (u_password_hash alice) = Inr False
   \<and> strip (ustr ''mallory'') \<notin> u_username ` set (users example_db)
   \<and> l_flashes
        (login strict_checkpw POST
           [''username'' \<mapsto> ustr ''alice'', ''password'' \<mapsto> long_password]
           \<lparr>s_user_id = None, s_username = None, s_first_name = None\<rparr> example_db full_pool)
     = [(''An error occurred during login'', ''error'')]
   \<and> l_flashes
        (login strict_checkpw POST
           [''username'' \<mapsto> ustr ''mallory'', ''password'' \<mapsto> long_password]
           \<lparr>s_user_id = None, s_username = None, s_first_name = None\<rparr> example_db full_pool)
     = [(''Invalid username or password'', ''error'')]"
  by (simp add: login_def login_page_def strict_checkpw_def example_checkpw_def
      long_password_def ustr_def strip_def isspace_def get_db_connection_def conn_close_def
      example_db_def alice_def bob_def full_pool_def)

text \<open>
  C8, amended. Two login attempts on the same store, session and pool, both with a
  non-empty username and password: one names an existing user, the other names no user.
  The second ends in the login page with the one flashed message
  \<open>Invalid username or password\<close>, the session untouched, the connection given back. When
  the password check answers that the password of the first is wrong, the first ends in
  the very same outcome. When the check raises, the first ends in the message
  \<open>An error occurred during login\<close> and the two outcomes differ. (Response time and log
  lines are not part of the outcome.)
\<close>

theorem login_failure_outcomes:
  assumes "get_db_connection p = Some p1"
    and "form1 ''username'' = Some n1" and "form1 ''password'' = Some w1"
    and "form2 ''username'' = Some n2" and "form2 ''password'' = Some w2"
    and "strip n1 \<noteq> []" and "w1 \<noteq> []" and "strip n2 \<noteq> []" and "w2 \<noteq> []"
    and "find (\<lambda>u. u_username u = strip n1) (users d) = Some user"
    and "strip n2 \<notin> u_username ` set (users d)"
  shows "login checkpw POST form2 s d p
           = \<lparr>l_code = 200, l_body = Template ''login.html'',
              l_flashes = [(''Invalid username or password'', ''error'')],
              l_session = s, l_pool = p\<rparr>
       \<and> (checkpw w1 (u_password_hash user) = Inr False \<longrightarrow>
            login checkpw POST form1 s d p
              = \<lparr>l_code = 200, l_body = Template ''login.html'',
                 l_flashes = [(''Invalid username or password'', ''error'')],
                 l_session = s, l_pool = p\<rparr>
          \<and> login checkpw POST form1 s d p = login checkpw POST form2 s d p)
       \<and> (\<forall>e. checkpw w1 (u_password_hash user) = Inl e \<longrightarrow>
            login checkpw POST form1 s d p
              = \<lparr>l_code = 200, l_body = Template ''login.html'',
                 l_flashes = [(''An error occurred during login'', ''error'')],
                 l_session = s, l_pool = p\<rparr>
          \<and> login checkpw POST form1 s d p \<noteq> login checkpw POST form2 s d p)"
proof -
  have missing: "find (\<lambda>u. u_username u = strip n2) (users d) = None"
    using assms(11) by (auto simp add: find_None_iff image_iff)
  have restored: "conn_close p1 = p"
    using assms(1) by (rule pool_restored)
  have r2: "login checkpw POST form2 s d p
              = login_page ''Invalid username or password'' s p"
    using assms(1,4,5,8,9) missing by (simp add: login_def restored)
  have r1: "login checkpw POST form1 s d p
              = (case checkpw w1 (u_password_hash user) of
                   Inl e \<Rightarrow> login_page ''An error occurred during login'' s p
                 | Inr ok \<Rightarrow>
                     if ok
                     then \<lparr>l_code = 302, l_body = Redirect ''dashboard'',
                           l_flashes = [(''Welcome back, '' @ u_first_name user @ ''!'',
                                         ''success'')],
                           l_session = s\<lparr>s_user_id := Some (u_id user),
                                          s_username := Some (u_username user),
                                          s_first_name := Some (u_first_name user)\<rparr>,
                           l_pool = p\<rparr>
                     else login_page ''Invalid username or password'' s p)"
    using assms(1-3,6,7,10) by (simp add: login_def restored split: sum.splits)
  show ?thesis
    by (simp add: r1 r2 login_page_def)
qed

theorem login_failure_outcomes_witness:
  "get_db_connection full_pool = Some \<lparr>created = True, idle = 4\<rparr>
   \<and> strip (ustr '' alice '' @ [0xA0]) = ustr ''alice''
   \<and> find (\<lambda>u. u_username u = strip (ustr '' alice '' @ [0xA0])) (users example_db)
       = Some alice
   \<and> example_checkpw (ustr ''guess'') (u_password_hash alice) = Inr False
   \<and> strip (ustr ''mallory'') \<notin> u_username ` set (users example_db)
   \<and> login example_checkpw POST
         [''username'' \<mapsto> ustr '' alice '' @ [0xA0], ''password'' \<mapsto> ustr ''guess'']
         \<lparr>s_user_id = None, s_username = None, s_first_name = None\<rparr> example_db full_pool
     = login example_checkpw POST
         [''username'' \<mapsto> ustr ''mallory'', ''password'' \<mapsto> ustr ''wonderland'']
         \<lparr>s_user_id = None, s_username = None, s_first_name = None\<rparr> example_db full_pool
   \<and> l_flashes
        (login example_checkpw POST
           [''username'' \<mapsto> ustr ''mallory'', ''password'' \<mapsto> ustr ''wonderland'']
           \<lparr>s_user_id = None, s_username = None, s_first_name = None\<rparr> example_db full_pool)
     = [(''Invalid username or password'', ''error'')]"
proof -
  let ?f1 = "[''username'' \<mapsto> ustr '' alice '' @ [0xA0], ''password'' \<mapsto> ustr ''guess'']"
  let ?f2 = "[''username'' \<mapsto> ustr ''mallory'', ''password'' \<mapsto> ustr ''wonderland'']"
  have h1: "get_db_connection full_pool = Some \<lparr>created = True, idle = 4\<rparr>"
    by (simp add: get_db_connection_def full_pool_def)
  have s1: "strip (ustr '' alice '' @ [0xA0]) = ustr ''alice''"
    by (simp add: ustr_def strip_def isspace_def)
  have s2: "strip (ustr ''mallory'') = ustr ''mallory''"
    by (simp add: ustr_def strip_def isspace_def)
  have a1: "?f1 ''username'' = Some (ustr '' alice '' @ [0xA0])" by simp
  have a2: "?f1 ''password'' = Some (ustr ''guess'')" by simp
  have b1: "?f2 ''username'' = Some (ustr ''mallory'')" by simp
  have b2: "?f2 ''password'' = Some (ustr ''wonderland'')" by simp
  have n1: "strip (ustr '' alice '' @ [0xA0]) \<noteq> []" using s1 by (simp add: ustr_def)
  have n2: "strip (ustr ''mallory'') \<noteq> []" using s2 by (simp add: ustr_def)
  have w1: "ustr ''guess'' \<noteq> []" by (simp add: ustr_def)
  have w2: "ustr ''wonderland'' \<noteq> []" by (simp add: ustr_def)
  have f: "find (\<lambda>u. u_username u = strip (ustr '' alice '' @ [0xA0])) (users example_db)
             = Some alice"
    using s1 by (simp add: example_db_def alice_def bob_def ustr_def)
  have c: "example_checkpw (ustr ''guess'') (u_password_hash alice) = Inr False"
    by (simp add: example_checkpw_def alice_def ustr_def)
  have m: "strip (ustr ''mallory'') \<notin> u_username ` set (users example_db)"
    using s2 by (simp add: example_db_def alice_def bob_def ustr_def)
  note run = login_failure_outcomes [where ?form1.0 = ?f1 and ?form2.0 = ?f2
      and checkpw = example_checkpw and ?n1.0 = "ustr '' alice '' @ [0xA0]"
      and ?w1.0 = "ustr ''guess''" and ?n2.0 = "ustr ''mallory''"
      and ?w2.0 = "ustr ''wonderland''" and user = alice and d = example_db
      and s = "\<lparr>s_user_id = None, s_username = None, s_first_name = None\<rparr>",
      OF h1 a1 a2 b1 b2 n1 w1 n2 w2 f m]
  show ?thesis
    using h1 s1 f c m run by simp
qed

section \<open>Creation defaults\<close>

text \<open>
  C9. Let a signed-in user who is a row of \<open>users\<close> create a task with an object body,
  answered 201, in a store whose next id is fresh and whose columns write the empty
  string, \<open>medium\<close> and NULL as they are. Then one row is appended, under the id returned;
  its description is the empty string when the key was omitted, its priority \<open>medium\<close>
  when the key was omitted, its \<open>due_date\<close> NULL when the key was omitted or empty; and
  the task list read next has a row of that id, and every row of that id shows these
  cells unchanged.
\<close>

theorem create_task_defaults:
  assumes "s_user_id s = Some uid"
    and "o_code (create_task sc now (PDict kvs) s d p) = 201"
    and "auto_increment d \<notin> t_id ` set (tasks d)"
    and "uid \<in> u_id ` set (users d)"
    and "text_column sc Description (SStr []) = Inr (Some [])"
    and "text_column sc Priority (SStr ''medium'') = Inr (Some ''medium'')"
    and "date_column sc SNull = Inr None"
  shows "\<exists>task_id title r vs.
           o_body (create_task sc now (PDict kvs) s d p) = JCreated task_id title
         \<and> tasks (o_db (create_task sc now (PDict kvs) s d p)) = tasks d @ [r]
         \<and> t_id r = task_id \<and> t_user_id r = uid
         \<and> (map_of kvs ''description'' = None \<longrightarrow> t_description r = Some [])
         \<and> (map_of kvs ''priority'' = None \<longrightarrow> t_priority r = Some ''medium'')
         \<and> (map_of kvs ''due_date'' = None \<or> map_of kvs ''due_date'' = Some (PStr [])
              \<longrightarrow> t_due_date r = None)
         \<and> o_body (get_tasks s (o_db (create_task sc now (PDict kvs) s d p))
                     (o_pool (create_task sc now (PDict kvs) s d p))) = JTasks vs
         \<and> (\<exists>v \<in> set vs. v_id v = task_id)
         \<and> (\<forall>v \<in> set vs. v_id v = task_id \<longrightarrow>
               v_description v = t_description r \<and> v_priority v = t_priority r
             \<and> v_due_date v = t_due_date r)"
proof (rule create_task_201 [OF assms(2,1)])
  fix title p1 b2 b3 b4 c1 c2 c3 c4
  assume t: "map_of kvs ''title'' = Some title" and p1: "get_db_connection p = Some p1"
    and b2: "to_mysql (case map_of kvs ''description'' of None \<Rightarrow> PStr [] | Some v \<Rightarrow> v) = Inr b2"
    and c2: "text_column sc Description b2 = Inr c2"
    and b3: "to_mysql (case map_of kvs ''priority'' of None \<Rightarrow> PStr ''medium'' | Some v \<Rightarrow> v) = Inr b3"
    and c3: "text_column sc Priority b3 = Inr c3"
    and b4: "to_mysql (if truthy (case map_of kvs ''due_date'' of None \<Rightarrow> PNone | Some v \<Rightarrow> v)
                   then (case map_of kvs ''due_date'' of None \<Rightarrow> PNone | Some v \<Rightarrow> v)
                   else PNone) = Inr b4"
    and c4: "date_column sc b4 = Inr c4"
    and out: "create_task sc now (PDict kvs) s d p
         = reply 201 (JCreated (auto_increment d) title)
             (d\<lparr>tasks := tasks d @
                   [\<lparr>t_id = auto_increment d, t_user_id = uid, t_title = c1,
                     t_description = c2, t_status = default_status sc, t_priority = c3,
                     t_due_date = c4, t_created_at = now, t_updated_at = now\<rparr>],
                 auto_increment := auto_increment d + 1\<rparr>)
             (conn_close p1)"
  let ?r = "\<lparr>t_id = auto_increment d, t_user_id = uid, t_title = c1,
             t_description = c2, t_status = default_status sc, t_priority = c3,
             t_due_date = c4, t_created_at = now, t_updated_at = now\<rparr>"
  let ?d' = "d\<lparr>tasks := tasks d @ [?r], auto_increment := auto_increment d + 1\<rparr>"
  have restored: "conn_close p1 = p"
    using p1 by (auto simp add: get_db_connection_def conn_close_def split: if_splits)
  have descr: "c2 = Some []" if "map_of kvs ''description'' = None"
    using that b2 c2 assms(5) by simp
  have prio: "c3 = Some ''medium''" if "map_of kvs ''priority'' = None"
    using that b3 c3 assms(6) by simp
  have due: "c4 = None" if "map_of kvs ''due_date'' = None \<or> map_of kvs ''due_date'' = Some (PStr [])"
    using that b4 c4 assms(7) by auto
  have listed: "o_body (get_tasks s ?d' p) = JTasks (select_tasks ?d' uid)"
    using assms(1) p1 by (simp add: get_tasks_def login_required_def reply_def)
  from assms(4) obtain u where u: "u \<in> set (users d)" "u_id u = uid"
    by auto
  have present: "\<exists>v \<in> set (select_tasks ?d' uid). v_id v = auto_increment d"
  proof
    have "?r \<in> set (tasks ?d') \<and> t_user_id ?r = uid \<and> u \<in> set (users ?d')
          \<and> t_user_id ?r = u_id u"
      using u by simp
    then show "task_view_of ?r u \<in> set (select_tasks ?d' uid)"
      unfolding select_tasks_set by blast
    show "v_id (task_view_of ?r u) = auto_increment d"
      by (simp add: task_view_of_def)
  qed
  have fields: "v_description v = c2 \<and> v_priority v = c3 \<and> v_due_date v = c4"
    if "v \<in> set (select_tasks ?d' uid)" and "v_id v = auto_increment d" for v
  proof -
    from that(1) obtain r' u' where v: "v = task_view_of r' u'" and r': "r' \<in> set (tasks d) \<or> r' = ?r"
      by (auto simp add: select_tasks_set)
    from v that(2) have "t_id r' = auto_increment d"
      by (simp add: task_view_of_def)
    with r' assms(3) have "r' = ?r"
      by (auto simp add: image_iff)
    with v show ?thesis
      by (simp add: task_view_of_def)
  qed
  have body: "o_body (create_task sc now (PDict kvs) s d p) = JCreated (auto_increment d) title"
    and db: "o_db (create_task sc now (PDict kvs) s d p) = ?d'"
    and pool: "o_pool (create_task sc now (PDict kvs) s d p) = p"
    by (simp_all add: out reply_def restored)
  have row: "tasks ?d' = tasks d @ [?r]" "t_id ?r = auto_increment d" "t_user_id ?r = uid"
    "t_description ?r = c2" "t_priority ?r = c3" "t_due_date ?r = c4"
    by simp_all
  show ?thesis
    unfolding body db pool
    apply (rule exI [of _ "auto_increment d"])
    apply (rule exI [of _ title])
    apply (rule exI [of _ ?r])
    apply (rule exI [of _ "select_tasks ?d' uid"])
    unfolding row
    apply (intro conjI impI)
             apply (rule refl)
            apply (rule refl)
           apply (rule refl)
          apply (rule refl)
         apply (erule descr)
        apply (erule prio)
       apply (erule due)
      apply (rule listed)
     apply (rule present)
    apply (intro ballI impI)
    apply (erule (1) fields)
    done
qed

theorem create_task_defaults_witness:
  "s_user_id alice_session = Some 1
   \<and> o_code (create_task example_schema 200 (PDict [(''title'', PStr ''Call home'')])
               alice_session example_db full_pool) = 201
   \<and> auto_increment example_db \<notin> t_id ` set (tasks example_db)
   \<and> 1 \<in> u_id ` set (users example_db)
   \<and> text_column example_schema Description (SStr []) = Inr (Some [])
   \<and> text_column example_schema Priority (SStr ''medium'') = Inr (Some ''medium'')
   \<and> date_column example_schema SNull = Inr None
   \<and> tasks (o_db (create_task example_schema 200 (PDict [(''title'', PStr ''Call home'')])
                    alice_session example_db full_pool))
       = [milk, rent, taxes,
          \<lparr>t_id = 4, t_user_id = 1, t_title = Some ''Call home'', t_description = Some [],
           t_status = Some ''pending'', t_priority = Some ''medium'', t_due_date = None,
           t_created_at = 200, t_updated_at = 200\<rparr>]
   \<and> (\<exists>vs. o_body (get_tasks alice_session
                     (o_db (create_task example_schema 200
                              (PDict [(''title'', PStr ''Call home'')])
                              alice_session example_db full_pool))
                     (o_pool (create_task example_schema 200
                                (PDict [(''title'', PStr ''Call home'')])
                                alice_session example_db full_pool))) = JTasks vs
          \<and> (\<exists>v \<in> set vs. v_id v = 4))"
proof -
  let ?out = "create_task example_schema 200 (PDict [(''title'', PStr ''Call home'')])
               alice_session example_db full_pool"
  have h1: "s_user_id alice_session = Some 1"
    by (simp add: alice_session_def)
  have ev: "?out = reply 201 (JCreated 4 (PStr ''Call home''))
       (example_db\<lparr>tasks := [milk, rent, taxes,
          \<lparr>t_id = 4, t_user_id = 1, t_title = Some ''Call home'', t_description = Some [],
           t_status = Some ''pending'', t_priority = Some ''medium'', t_due_date = None,
           t_created_at = 200, t_updated_at = 200\<rparr>], auto_increment := 5\<rparr>) full_pool"
    by (simp add: create_task_def execute_insert_def handler_defs example_schema_def
        example_db_def alice_session_def full_pool_def)
  have h2: "o_code ?out = 201"
    by (simp add: ev reply_def)
  have h3: "auto_increment example_db \<notin> t_id ` set (tasks example_db)"
    by (simp add: example_defs)
  have h4: "1 \<in> u_id ` set (users example_db)"
    by (simp add: example_defs)
  have h5: "text_column example_schema Description (SStr []) = Inr (Some [])"
    by (simp add: example_schema_def)
  have h6: "text_column example_schema Priority (SStr ''medium'') = Inr (Some ''medium'')"
    by (simp add: example_schema_def)
  have h7: "date_column example_schema SNull = Inr None"
    by (simp add: example_schema_def)
  have rows: "tasks (o_db ?out) = [milk, rent, taxes,
          \<lparr>t_id = 4, t_user_id = 1, t_title = Some ''Call home'', t_description = Some [],
           t_status = Some ''pending'', t_priority = Some ''medium'', t_due_date = None,
           t_created_at = 200, t_updated_at = 200\<rparr>]"
    by (simp add: ev reply_def)
  have id: "o_body ?out = JCreated 4 (PStr ''Call home'')"
    by (simp add: ev reply_def)
  from create_task_defaults [OF h1 h2 h3 h4 h5 h6 h7]
  have "\<exists>vs. o_body (get_tasks alice_session (o_db ?out) (o_pool ?out)) = JTasks vs
          \<and> (\<exists>v \<in> set vs. v_id v = 4)"
    unfolding id by auto
  with h1 h2 h3 h4 h5 h6 h7 rows show ?thesis
    by blast
qed

section \<open>Update without a body\<close>

text \<open>
  C10. For a signed-in update request holding a connection whose parsed body is \<open>None\<close>:
  when the task is not one of the user's the answer is 404 \<open>Task not found\<close>; when it is,
  the first test \<open>'title' in data\<close> raises \<open>TypeError\<close> and the answer is 500 with the text
  of that exception. The tables stay as they were, and for no session, store or pool is
  such a request answered 400.
\<close>

theorem update_task_missing_body:
  assumes "s_user_id s = Some uid" and "get_db_connection p = Some p1"
  shows "(\<not> owned d task_id uid \<longrightarrow>
            o_code (update_task sc now task_id PNone s d p) = 404
          \<and> o_body (update_task sc now task_id PNone s d p) = JError ''Task not found'')
       \<and> (owned d task_id uid \<longrightarrow>
            o_code (update_task sc now task_id PNone s d p) = 500
          \<and> o_body (update_task sc now task_id PNone s d p) = JException TypeError)
       \<and> o_db (update_task sc now task_id PNone s d p) = d
       \<and> (\<forall>s' d' p'. o_code (update_task sc now task_id PNone s' d' p') \<noteq> 400)"
proof -
  have never400: "o_code (update_task sc now task_id PNone s' d' p') \<noteq> 400" for s' d' p'
    by (simp add: update_task_def login_required_def reply_def build_update_None
        split: option.splits)
  show ?thesis
    using assms never400
    by (simp add: update_task_def login_required_def reply_def build_update_None)
qed

theorem update_task_missing_body_witness:
  "s_user_id alice_session = Some 1
   \<and> get_db_connection full_pool = Some \<lparr>created = True, idle = 4\<rparr>
   \<and> owned example_db 1 1 \<and> \<not> owned example_db 2 1
   \<and> o_code (update_task example_schema 200 1 PNone alice_session example_db full_pool) = 500
   \<and> o_code (update_task example_schema 200 2 PNone alice_session example_db full_pool) = 404"
proof -
  have h1: "s_user_id alice_session = Some 1"
    by (simp add: alice_session_def)
  have h2: "get_db_connection full_pool = Some \<lparr>created = True, idle = 4\<rparr>"
    by (simp add: get_db_connection_def full_pool_def)
  have o1: "owned example_db 1 1"
    by (simp add: owned_def example_db_def milk_def rent_def taxes_def)
  have o2: "\<not> owned example_db 2 1"
    by (simp add: owned_def example_db_def milk_def rent_def taxes_def)
  from update_task_missing_body [OF h1 h2, of example_db 1 example_schema 200]
    update_task_missing_body [OF h1 h2, of example_db 2 example_schema 200]
  show ?thesis
    using h1 h2 o1 o2 by simp
qed

end
